theory Spec2Isabelle
  imports Main "HOL-Library.Word" "HOL-Library.AList"
begin

section \<open>Package emote: emotes and emote sets\<close>

text \<open>
  \<^verbatim>\<open>type Platform int\<close> with the constants \<^verbatim>\<open>Unknown = iota, Twitch, SevenTV, BTTV, FFZ\<close>
  (emote.go, lines 5 to 13). The zero value is \<^verbatim>\<open>Unknown\<close>.
\<close>

datatype Platform = Unknown | Twitch | SevenTV | BTTV | FFZ

fun Platform_String :: "Platform \<Rightarrow> string" where
  "Platform_String Twitch = ''Twitch''"
| "Platform_String SevenTV = ''SevenTV''"
| "Platform_String BTTV = ''BTTV''"
| "Platform_String FFZ = ''FFZ''"
| "Platform_String Unknown = ''Unknown''"

record Emote =
  ID :: string
  Text :: string
  Platform :: Platform
  URL :: string
  IsAnimated :: bool
  Format :: string
  TTVEmoteType :: string

text \<open>The zero value \<^verbatim>\<open>Emote{}\<close>: empty strings, \<^verbatim>\<open>Unknown\<close>, \<^verbatim>\<open>false\<close>.\<close>

definition Emote_zero :: Emote where
  "Emote_zero = \<lparr>ID = [], Text = [], Platform = Unknown, URL = [], IsAnimated = False,
     Format = [], TTVEmoteType = []\<rparr>"

type_synonym EmoteSet = "Emote list"

text \<open>
  \<^verbatim>\<open>func (set EmoteSet) GetByText(text string) (Emote, bool)\<close> (emote.go, lines 45 to 53):
  the loop over \<^verbatim>\<open>slices.Values(set)\<close> visits the slice front to back and returns at the
  first element whose \<^verbatim>\<open>Text\<close> equals the query.
\<close>

fun GetByText :: "EmoteSet \<Rightarrow> string \<Rightarrow> Emote \<times> bool" where
  "GetByText [] text = (Emote_zero, False)"
| "GetByText (e # es) text = (if Text e = text then (e, True) else GetByText es text)"

section \<open>Package ffz: the FrankerFaceZ API client\<close>

subsection \<open>Response types (part\_002)\<close>

record APIError =
  StatusCode :: int
  Status :: string
  Message :: string

definition APIError_zero :: APIError where
  "APIError_zero = \<lparr>StatusCode = 0, Status = [], Message = []\<rparr>"

text \<open>The field \<^verbatim>\<open>URLs map[string]string\<close> is kept as an association list.\<close>

record ffzEmote =
  ID :: int
  Name :: string
  Height :: int
  Width :: int
  Modifier :: bool
  URLs :: "(string \<times> string) list"

record emoteSet =
  ID :: int
  Emoticons :: "ffzEmote list"

text \<open>
  \<^verbatim>\<open>Sets map[string]emoteSet\<close> is kept as an association list: the order of the list is the
  order in which the \<^verbatim>\<open>range\<close> loop of Go visits the map (any order is possible).
\<close>

record globalResponse =
  DefaultSets :: "int list"
  Sets :: "(string \<times> emoteSet) list"

definition globalResponse_zero :: globalResponse where
  "globalResponse_zero = \<lparr>DefaultSets = [], Sets = []\<rparr>"

text \<open>
  A Go \<^verbatim>\<open>error\<close> value seen by a caller of this package: either the package's own typed
  \<^verbatim>\<open>APIError\<close>, or an error of a library (net/http, io, encoding/json), kept opaque.
\<close>

datatype ffz_error = APIErr APIError | LibErr string

subsection \<open>The standard library, as far as the client uses it\<close>

text \<open>
  \<^verbatim>\<open>strconv.Atoi\<close> on a 64-bit platform: an optional sign, then at least one decimal digit and
  nothing else, and a value that fits \<^verbatim>\<open>int\<close>; anything else is an error.
\<close>

definition is_digit :: "char \<Rightarrow> bool" where
  "is_digit c = (48 \<le> (of_char c :: nat) \<and> (of_char c :: nat) \<le> 57)"

definition digit_val :: "char \<Rightarrow> int" where
  "digit_val c = int (of_char c) - 48"

definition Atoi :: "string \<Rightarrow> int option" where
  "Atoi s =
     (let neg = (case s of [] \<Rightarrow> False | c # _ \<Rightarrow> c = CHR ''-'');
          ds = (case s of [] \<Rightarrow> [] | c # r \<Rightarrow> if c = CHR ''-'' \<or> c = CHR ''+'' then r else s)
      in if ds = [] \<or> \<not> list_all is_digit ds then None
         else let n = foldl (\<lambda>a c. a * 10 + digit_val c) 0 ds;
                  v = (if neg then - n else n)
              in if v < - (2 ^ 63) \<or> 2 ^ 63 - 1 < v then None else Some v)"

text \<open>
  What \<^verbatim>\<open>io.ReadAll(resp.Body)\<close> gives is part of the response: \<open>Inl\<close> a read error,
  \<open>Inr\<close> the bytes.
\<close>

record Response =
  StatusCode :: int
  Status :: string
  Body :: "string + string"

text \<open>
  The HTTP client: \<^verbatim>\<open>http.NewRequestWithContext\<close> may reject the method or the URL, and
  \<^verbatim>\<open>client.Do\<close> fails (transport error, cancelled context) or yields a response.
\<close>

record http_Client =
  NewRequestWithContext :: "string \<Rightarrow> string \<Rightarrow> string option"
  Do :: "string \<Rightarrow> string \<Rightarrow> string + Response"

text \<open>
  \<^verbatim>\<open>json.Unmarshal(respBody, &errResp)\<close>: \<^verbatim>\<open>StatusCode\<close> and \<^verbatim>\<open>Status\<close> carry the tag
  \<^verbatim>\<open>json:"-"\<close>, so the decoder can only assign \<^verbatim>\<open>Message\<close>. The parameter \<open>json_message\<close> is
  the decoder's view of the body: the value it finds for the key \<^verbatim>\<open>message\<close>, if any, and
  the error it reports, if any.
\<close>

definition Unmarshal_APIError ::
  "(string \<Rightarrow> string option \<times> string option) \<Rightarrow> string \<Rightarrow> APIError \<Rightarrow> APIError \<times> string option" where
  "Unmarshal_APIError json_message body errResp =
     (case json_message body of
        (m, err) \<Rightarrow> ((case m of None \<Rightarrow> errResp | Some msg \<Rightarrow> errResp\<lparr>Message := msg\<rparr>), err))"

subsection \<open>doRequest and GetGlobalEmotes (api.go)\<close>

definition baseURL :: string where
  "baseURL = ''https://api.frankerfacez.com/v1''"

text \<open>
  \<^verbatim>\<open>func doRequest[T any](ctx, api, method, url, body) (T, error)\<close>, api.go lines 75 to 115.
  \<open>unmarshal\<close> is \<^verbatim>\<open>json.Unmarshal(respBody, &data)\<close> at type \<^verbatim>\<open>T\<close>: it takes the bytes and
  the target and gives the target as the decoder left it, and its error. \<open>zero\<close> is
  \<^verbatim>\<open>var data T\<close>.
\<close>

definition doRequest ::
  "http_Client \<Rightarrow> (string \<Rightarrow> 'T \<Rightarrow> 'T \<times> string option) \<Rightarrow>
   (string \<Rightarrow> string option \<times> string option) \<Rightarrow> 'T \<Rightarrow> string \<Rightarrow> string \<Rightarrow>
   'T \<times> ffz_error option" where
  "doRequest client unmarshal json_message zero method url0 =
     (let data = zero; url = baseURL @ url0 in
      case NewRequestWithContext client method url of
        Some err \<Rightarrow> (data, Some (LibErr err))
      | None \<Rightarrow>
         (case Do client method url of
            Inl err \<Rightarrow> (data, Some (LibErr err))
          | Inr resp \<Rightarrow>
             (case Body resp of
                Inl err \<Rightarrow> (data, Some (LibErr err))
              | Inr respBody \<Rightarrow>
                 if Response.StatusCode resp < 200 \<or> 300 \<le> Response.StatusCode resp then
                   (let errResp = APIError_zero\<lparr>APIError.StatusCode := Response.StatusCode resp,
                                                 APIError.Status := Response.Status resp\<rparr>
                    in case Unmarshal_APIError json_message respBody errResp of
                         (_, Some err) \<Rightarrow> (data, Some (LibErr err))
                       | (errResp', None) \<Rightarrow> (data, Some (APIErr errResp')))
                 else
                   (case unmarshal respBody data of
                      (data', Some err) \<Rightarrow> (data', Some (LibErr err))
                    | (data', None) \<Rightarrow> (data', None)))))"

text \<open>
  The second loop of \<^verbatim>\<open>GetGlobalEmotes\<close> (api.go lines 51 to 61): for each entry of
  \<^verbatim>\<open>resp.Sets\<close>, skip it when the key is not an integer or the integer is not in
  \<^verbatim>\<open>defaultSets\<close>, otherwise append the set's emoticons.
\<close>

fun GetGlobalEmotes_loop :: "int set \<Rightarrow> (string \<times> emoteSet) list \<Rightarrow> ffzEmote list \<Rightarrow> ffzEmote list" where
  "GetGlobalEmotes_loop defaultSets [] emotes = emotes"
| "GetGlobalEmotes_loop defaultSets ((idStr, s) # rest) emotes =
     (case Atoi idStr of
        None \<Rightarrow> GetGlobalEmotes_loop defaultSets rest emotes
      | Some i \<Rightarrow>
         if i \<notin> defaultSets then GetGlobalEmotes_loop defaultSets rest emotes
         else GetGlobalEmotes_loop defaultSets rest (emotes @ Emoticons s))"

text \<open>
  \<^verbatim>\<open>func (a API) GetGlobalEmotes(ctx) ([]Emote, error)\<close>, api.go lines 40 to 64. The first
  loop builds the set \<^verbatim>\<open>defaultSets\<close> from \<^verbatim>\<open>resp.DefaultSets\<close>. A nil slice and an empty
  slice are both \<open>[]\<close>.
\<close>

definition GetGlobalEmotes ::
  "http_Client \<Rightarrow> (string \<Rightarrow> globalResponse \<Rightarrow> globalResponse \<times> string option) \<Rightarrow>
   (string \<Rightarrow> string option \<times> string option) \<Rightarrow> ffzEmote list \<times> ffz_error option" where
  "GetGlobalEmotes client unmarshal json_message =
     (case doRequest client unmarshal json_message globalResponse_zero ''GET'' ''/set/global'' of
        (resp, Some err) \<Rightarrow> ([], Some err)
      | (resp, None) \<Rightarrow>
         (let defaultSets = foldl (\<lambda>m i. insert i m) {} (DefaultSets resp)
          in (GetGlobalEmotes_loop defaultSets (Sets resp) [], None)))"

text \<open>
  The claim's own words, for comparison with the loop: the emotes of the sets whose key
  parses as an integer that \<^verbatim>\<open>default_sets\<close> contains.
\<close>

definition is_default_set :: "int list \<Rightarrow> string \<times> emoteSet \<Rightarrow> bool" where
  "is_default_set ds kv = (case Atoi (fst kv) of None \<Rightarrow> False | Some i \<Rightarrow> i \<in> set ds)"

definition default_set_emotes :: "globalResponse \<Rightarrow> ffzEmote list" where
  "default_set_emotes resp =
     concat (map (\<lambda>kv. Emoticons (snd kv)) (filter (is_default_set (DefaultSets resp)) (Sets resp)))"

section \<open>Package sixelimg: the sixel DisplayManager (part\_001)\<close>

subsection \<open>Errors\<close>

text \<open>
  Go \<^verbatim>\<open>error\<close> values of this package: the two sentinel errors the code tests for
  (\<^verbatim>\<open>afero.ErrFileNotFound\<close>, \<^verbatim>\<open>fs.ErrExist\<close>), an opaque error of a library or of the
  loader, \<^verbatim>\<open>fmt.Errorf\<close> with \<^verbatim>\<open>%w\<close> (an error wrapping another one; also how the file
  system's path errors carry a sentinel) and \<^verbatim>\<open>fmt.Errorf\<close> without it.
\<close>

datatype error =
    ErrFileNotFound
  | ErrExist
  | LibError string
  | Wrapped string error
  | Errorf string

text \<open>\<^verbatim>\<open>errors.Is\<close>: the error itself or one on its chain of wrapped errors is the target.\<close>

fun errors_Is :: "error \<Rightarrow> error \<Rightarrow> bool" where
  "errors_Is (Wrapped m e) target = (Wrapped m e = target \<or> errors_Is e target)"
| "errors_Is e target = (e = target)"

subsection \<open>Data\<close>

text \<open>
  Modelled from the spec: the type \<^verbatim>\<open>kittyimg.DisplayUnit\<close> is declared in a package that
  is not among the sources. The fields are those the spec lists for a DisplayUnit
  (directory, canonical ID, animation flag, right-padding hint, lazy byte-loader), under
  the names that part\_001 and the test use. \<open>Load\<close> is what one invocation of the loader yields: \<open>Inl\<close> its error, or
  \<open>Inr\<close> the image bytes and the content type. Invocations are counted in the state.
\<close>

record DisplayUnit =
  ID :: string
  Directory :: string
  IsAnimated :: bool
  RightPadding :: int
  Load :: "error + (string \<times> string)"

text \<open>
  Modelled from the spec: \<^verbatim>\<open>kittyimg.KittyDisplayUnit\<close>, the payload that \<^verbatim>\<open>Convert\<close> returns,
  with the two fields that part\_001 and the test name: the prepare command of the
  graphics-protocol variant and the replacement text.
\<close>

record KittyDisplayUnit =
  PrepareCommand :: string
  ReplacementText :: string

definition KittyDisplayUnit_zero :: KittyDisplayUnit where
  "KittyDisplayUnit_zero = \<lparr>PrepareCommand = [], ReplacementText = []\<rparr>"

text \<open>
  \<^verbatim>\<open>type DecodedImage struct\<close> (lines 49 to 55). \<^verbatim>\<open>ID\<close> is an \<^verbatim>\<open>int32\<close>; \<^verbatim>\<open>lastUsed\<close> is a
  \<^verbatim>\<open>time.Time\<close>, here the reading of the monotonic clock in nanoseconds.
\<close>

record DecodedImage =
  ID :: "32 word"
  Cols :: int
  SixelData :: string
  lastUsed :: int

definition DecodedImage_zero :: DecodedImage where
  "DecodedImage_zero = \<lparr>ID = 0, Cols = 0, SixelData = [], lastUsed = 0\<rparr>"

text \<open>
  The session cache \<^verbatim>\<open>globalPlacedImages\<close> is a \<^verbatim>\<open>syncmap.Map\<close> from \<^verbatim>\<open>any\<close> to \<^verbatim>\<open>any\<close>. Its
  keys are the unit IDs; a value is a \<^verbatim>\<open>DecodedImage\<close> or, as far as the type goes, anything
  else (the code checks with a type assertion). The map is an association list:
  \<^verbatim>\<open>Load\<close> is \<^const>\<open>map_of\<close>, \<^verbatim>\<open>Store\<close> and \<^verbatim>\<open>Swap\<close> are \<^const>\<open>AList.update\<close>, \<^verbatim>\<open>Delete\<close> is
  \<^const>\<open>AList.delete\<close>.
\<close>

datatype any_value = DecodedImageV DecodedImage | OtherValue

type_synonym syncmap = "(string \<times> any_value) list"

subsection \<open>The file system (afero.Fs)\<close>

text \<open>
  \<^verbatim>\<open>afero.Fs\<close> is an interface; the model is an in-memory file system (path to contents,
  and the directories made) in which any operation on any path can be made to fail:
  \<open>MkdirAll_fault\<close>, \<open>Create_fault\<close> and \<open>ReadFile_fault\<close> give the error of the operation on
  a path, if it is to fail, and \<open>Write_fault\<close> gives the error of a write to a file
  together with the number of bytes written before it.
\<close>

record afero_Fs =
  files :: "string \<rightharpoonup> string"
  dirs :: "string set"
  MkdirAll_fault :: "string \<Rightarrow> error option"
  Create_fault :: "string \<Rightarrow> error option"
  Write_fault :: "string \<Rightarrow> (nat \<times> error) option"
  ReadFile_fault :: "string \<Rightarrow> error option"

definition MkdirAll :: "afero_Fs \<Rightarrow> string \<Rightarrow> error option \<times> afero_Fs" where
  "MkdirAll f path =
     (case MkdirAll_fault f path of
        Some err \<Rightarrow> (Some err, f)
      | None \<Rightarrow> (None, f\<lparr>dirs := insert path (dirs f)\<rparr>))"

text \<open>\<^verbatim>\<open>Create\<close> makes the file or truncates it; the handle it returns is the path.\<close>

definition Create :: "afero_Fs \<Rightarrow> string \<Rightarrow> error option \<times> afero_Fs" where
  "Create f path =
     (case Create_fault f path of
        Some err \<Rightarrow> (Some err, f)
      | None \<Rightarrow> (None, f\<lparr>files := (files f)(path \<mapsto> [])\<rparr>))"

text \<open>\<^verbatim>\<open>File.Write\<close> appends to what the handle has written so far.\<close>

definition Write :: "afero_Fs \<Rightarrow> string \<Rightarrow> string \<Rightarrow> error option \<times> afero_Fs" where
  "Write f path bytes =
     (let old = (case files f path of None \<Rightarrow> [] | Some c \<Rightarrow> c) in
      case Write_fault f path of
        Some (n, err) \<Rightarrow> (Some err, f\<lparr>files := (files f)(path \<mapsto> old @ take n bytes)\<rparr>)
      | None \<Rightarrow> (None, f\<lparr>files := (files f)(path \<mapsto> old @ bytes)\<rparr>))"

text \<open>\<^verbatim>\<open>afero.ReadFile\<close>: a missing file is a path error that wraps \<^verbatim>\<open>ErrFileNotFound\<close>.\<close>

definition ReadFile :: "afero_Fs \<Rightarrow> string \<Rightarrow> error + string" where
  "ReadFile f path =
     (case ReadFile_fault f path of
        Some err \<Rightarrow> Inl err
      | None \<Rightarrow>
         (case files f path of
            None \<Rightarrow> Inl (Wrapped ''open'' ErrFileNotFound)
          | Some c \<Rightarrow> Inr c))"

subsection \<open>Libraries of the persistent cache\<close>

text \<open>
  The metadata record that \<^verbatim>\<open>cacheDecodedImage\<close> writes and \<^verbatim>\<open>openCached\<close> reads (lines 291
  to 297 and 318 to 321). Its field \<^verbatim>\<open>Cols\<close> is \<open>meta_Cols\<close> here.
\<close>

record meta =
  meta_Cols :: int
  EncodedPath :: string

text \<open>
  What the persistent cache takes from outside the repository: the base directory (from
  \<^verbatim>\<open>xdg.DataHome\<close>), \<^verbatim>\<open>filepath.Join\<close> and \<^verbatim>\<open>filepath.Clean\<close> (they depend on the platform),
  the zlib writer (\<^verbatim>\<open>Write\<close> then \<^verbatim>\<open>Close\<close> into a buffer) and reader (\<^verbatim>\<open>NewReader\<close> then
  \<^verbatim>\<open>io.ReadAll\<close>), and the JSON encoder and decoder at the type of the metadata record
  (\<^verbatim>\<open>json.Marshal\<close> cannot fail on a struct of an int and a string; \<^verbatim>\<open>Encoder.Encode\<close> then
  writes the text and a newline, and that write can fail).
\<close>

record storage =
  BaseImageDirectory :: string
  filepath_Join :: "string list \<Rightarrow> string"
  filepath_Clean :: "string \<Rightarrow> string"
  zlib_compress :: "string \<Rightarrow> error + string"
  zlib_decompress :: "string \<Rightarrow> error + string"
  json_Marshal :: "meta \<Rightarrow> string"
  json_Unmarshal :: "string \<Rightarrow> error + meta"

text \<open>\<^verbatim>\<open>createGetCacheDirectory\<close>, lines 350 to 361.\<close>

definition createGetCacheDirectory ::
  "storage \<Rightarrow> afero_Fs \<Rightarrow> string \<Rightarrow> (string \<times> error option) \<times> afero_Fs" where
  "createGetCacheDirectory lib f dir =
     (let path = filepath_Join lib [BaseImageDirectory lib, ''sixel'', dir] in
      case MkdirAll f path of
        (Some err, f') \<Rightarrow>
          if errors_Is err ErrExist then ((path, None), f') else (([], Some err), f')
      | (None, f') \<Rightarrow> ((path, None), f'))"

text \<open>The two file names, \<^verbatim>\<open>fmt.Sprintf("%s.sixel.json", filepath.Clean(unit.ID))\<close> and
  the same with \<^verbatim>\<open>.sixel.zlib\<close>, joined to the cache directory (lines 260, 279, 308).\<close>

definition metaImageFilePath :: "storage \<Rightarrow> string \<Rightarrow> DisplayUnit \<Rightarrow> string" where
  "metaImageFilePath lib cacheDir unit =
     filepath_Join lib [cacheDir, filepath_Clean lib (DisplayUnit.ID unit) @ ''.sixel.json'']"

definition compressedPath :: "storage \<Rightarrow> string \<Rightarrow> DisplayUnit \<Rightarrow> string" where
  "compressedPath lib cacheDir unit =
     filepath_Join lib [cacheDir, filepath_Clean lib (DisplayUnit.ID unit) @ ''.sixel.zlib'']"

text \<open>
  \<^verbatim>\<open>cacheDecodedImage\<close>, lines 254 to 300, in the order of the source: the cache directory,
  the metadata file created (empty), the payload compressed, the payload file created and
  written, and last the metadata encoded into its file. Every error returns at once, with
  the file system as it is by then. The deferred \<^verbatim>\<open>Close\<close> calls change nothing.
\<close>

definition cacheDecodedImage ::
  "storage \<Rightarrow> afero_Fs \<Rightarrow> DecodedImage \<Rightarrow> DisplayUnit \<Rightarrow> error option \<times> afero_Fs" where
  "cacheDecodedImage lib f0 decoded unit =
     (case createGetCacheDirectory lib f0 (Directory unit) of
        ((_, Some err), f1) \<Rightarrow> (Some err, f1)
      | ((cacheDir, None), f1) \<Rightarrow>
         (let metaPath = metaImageFilePath lib cacheDir unit in
          case Create f1 metaPath of
            (Some err, f2) \<Rightarrow> (Some err, f2)
          | (None, f2) \<Rightarrow>
             (case zlib_compress lib (SixelData decoded) of
                Inl err \<Rightarrow> (Some err, f2)
              | Inr buf \<Rightarrow>
                 (let cPath = compressedPath lib cacheDir unit in
                  case Create f2 cPath of
                    (Some err, f3) \<Rightarrow> (Some err, f3)
                  | (None, f3) \<Rightarrow>
                     (case Write f3 cPath buf of
                        (Some err, f4) \<Rightarrow> (Some err, f4)
                      | (None, f4) \<Rightarrow>
                         (let m = \<lparr>meta_Cols = Cols decoded, EncodedPath = cPath\<rparr>
                          in Write f4 metaPath (json_Marshal lib m @ [CHR 0x0A])))))))"

text \<open>
  \<^verbatim>\<open>openCached\<close>, lines 302 to 348. The result is the triple of the source; the file system
  is returned too, because \<^verbatim>\<open>createGetCacheDirectory\<close> makes the directory.
\<close>

definition openCached ::
  "storage \<Rightarrow> afero_Fs \<Rightarrow> DisplayUnit \<Rightarrow> (DecodedImage \<times> bool \<times> error option) \<times> afero_Fs" where
  "openCached lib f0 unit =
     (case createGetCacheDirectory lib f0 (Directory unit) of
        ((_, Some err), f1) \<Rightarrow> ((DecodedImage_zero, False, Some err), f1)
      | ((dir, None), f1) \<Rightarrow>
         (case ReadFile f1 (metaImageFilePath lib dir unit) of
            Inl err \<Rightarrow>
              if errors_Is err ErrFileNotFound then ((DecodedImage_zero, False, None), f1)
              else ((DecodedImage_zero, False, Some err), f1)
          | Inr data \<Rightarrow>
             (case json_Unmarshal lib data of
                Inl err \<Rightarrow> ((DecodedImage_zero, False, Some err), f1)
              | Inr m \<Rightarrow>
                 (case ReadFile f1 (EncodedPath m) of
                    Inl err \<Rightarrow> ((DecodedImage_zero, False, Some err), f1)
                  | Inr compressedData \<Rightarrow>
                     (case zlib_decompress lib compressedData of
                        Inl err \<Rightarrow> ((DecodedImage_zero, False, Some err), f1)
                      | Inr sixelData \<Rightarrow>
                         ((DecodedImage_zero\<lparr>Cols := meta_Cols m, SixelData := sixelData\<rparr>,
                           True, None), f1))))))"

subsection \<open>Decoding, scaling and encoding an image\<close>

text \<open>
  The image libraries, over a type \<open>'img\<close> of images and a type \<open>'f\<close> of \<^verbatim>\<open>float32\<close> values:
  the decoders (\<^verbatim>\<open>avif.DecodeAll\<close>, the animated \<^verbatim>\<open>webp.DecodeAll\<close>, \<^verbatim>\<open>gif.DecodeAll\<close> with the
  width and height of its \<^verbatim>\<open>Config\<close>, \<^verbatim>\<open>image.Decode\<close> with the format name), the width
  \<open>Dx\<close> and height \<open>Dy\<close> of an image's bounds, \<^verbatim>\<open>image.NewRGBA\<close> of a width and a height,
  \<^verbatim>\<open>draw.Draw\<close> of a source onto a destination (\<open>Draw_Over\<close>, \<open>Draw_Src\<close>), the scaler
  \<^verbatim>\<open>draw.CatmullRom.Scale\<close>, the sixel encoder, and the three floating-point expressions
  of \<^verbatim>\<open>convertSingleImage\<close>: \<open>scaledWidth h w0 h0\<close> is
  \<^verbatim>\<open>int(math.Round(float64(float32(w0) * (h / float32(h0)))))\<close>, \<open>truncInt h\<close> is \<^verbatim>\<open>int(h)\<close> and
  \<open>colsOf w c\<close> is \<^verbatim>\<open>int(math.Ceil(float64(float32(w) / c)))\<close>.
\<close>

record ('img, 'f) imaging =
  avif_DecodeAll :: "string \<Rightarrow> error + 'img list"
  awebp_DecodeAll :: "string \<Rightarrow> error + 'img list"
  gif_DecodeAll :: "string \<Rightarrow> error + ('img list \<times> int \<times> int)"
  image_Decode :: "string \<Rightarrow> (string \<times> error) + 'img"
  Dx :: "'img \<Rightarrow> int"
  Dy :: "'img \<Rightarrow> int"
  NewRGBA :: "int \<Rightarrow> int \<Rightarrow> 'img"
  Draw_Over :: "'img \<Rightarrow> 'img \<Rightarrow> 'img"
  Draw_Src :: "'img \<Rightarrow> 'img \<Rightarrow> 'img"
  Scale :: "'img \<Rightarrow> 'img \<Rightarrow> 'img"
  sixel_Encode :: "'img \<Rightarrow> error + string"
  scaledWidth :: "'f \<Rightarrow> int \<Rightarrow> int \<Rightarrow> int"
  truncInt :: "'f \<Rightarrow> int"
  colsOf :: "int \<Rightarrow> 'f \<Rightarrow> int"

text \<open>
  \<^verbatim>\<open>type DisplayManager struct\<close> (lines 58 to 61). Its field \<^verbatim>\<open>fs\<close> refers to the file
  system, whose contents change: they are part of the state below.
\<close>

record 'f DisplayManager =
  cellWidth :: 'f
  cellHeight :: 'f

text \<open>\<^verbatim>\<open>addRightPadding\<close>, lines 364 to 373.\<close>

definition addRightPadding :: "('img, 'f) imaging \<Rightarrow> 'img \<Rightarrow> int \<Rightarrow> 'img" where
  "addRightPadding im img padding =
     (let newWidth = Dx im img + padding;
          newHeight = Dy im img;
          padded = NewRGBA im newWidth newHeight
      in Draw_Src im padded img)"

text \<open>\<^verbatim>\<open>imageToSixel\<close>, lines 376 to 386.\<close>

definition imageToSixel :: "('img, 'f) imaging \<Rightarrow> 'img \<Rightarrow> error + string" where
  "imageToSixel im img = (case sixel_Encode im img of Inl err \<Rightarrow> Inl err | Inr buf \<Rightarrow> Inr buf)"

text \<open>
  \<^verbatim>\<open>convertSingleImage\<close>, lines 218 to 252. Every error return of the source carries the
  zero \<^verbatim>\<open>DecodedImage\<close>, so the result is a sum.
\<close>

definition convertSingleImage ::
  "('img, 'f) imaging \<Rightarrow> 'f DisplayManager \<Rightarrow> 'img \<Rightarrow> DisplayUnit \<Rightarrow> error + DecodedImage" where
  "convertSingleImage im d img0 unit =
     (let height = Dy im img0;
          width0 = Dx im img0;
          img = (if 0 < RightPadding unit then addRightPadding im img0 (RightPadding unit) else img0);
          width = (if 0 < RightPadding unit then Dx im img else width0);
          newWidth = scaledWidth im (cellHeight d) width height;
          newHeight = truncInt im (cellHeight d);
          resized = Scale im (NewRGBA im newWidth newHeight) img;
          cols = colsOf im newWidth (cellWidth d)
      in case imageToSixel im resized of
           Inl err \<Rightarrow> Inl (Wrapped ''failed to encode sixel'' err)
         | Inr sixelData \<Rightarrow> Inr (DecodedImage_zero\<lparr>Cols := cols, SixelData := sixelData\<rparr>))"

text \<open>
  \<^verbatim>\<open>convertImageBytes\<close>, lines 159 to 216: the content type and the animation flag choose
  the decoder; of an animated image only the first frame is used.
\<close>

definition convertImageBytes ::
  "('img, 'f) imaging \<Rightarrow> 'f DisplayManager \<Rightarrow> string \<Rightarrow> DisplayUnit \<Rightarrow> string \<Rightarrow>
   error + DecodedImage" where
  "convertImageBytes im d r unit contentType =
     (if contentType = ''image/avif'' then
        (case avif_DecodeAll im r of
           Inl err \<Rightarrow> Inl (Wrapped ''failed to convert avif'' err)
         | Inr [] \<Rightarrow> Inl (Errorf ''avif has no frames'')
         | Inr (frame # _) \<Rightarrow> convertSingleImage im d frame unit)
      else if DisplayUnit.IsAnimated unit \<and> contentType = ''image/webp'' then
        (case awebp_DecodeAll im r of
           Inl err \<Rightarrow> Inl (Wrapped ''failed to convert animated webp'' err)
         | Inr [] \<Rightarrow> Inl (Errorf ''webp has no frames'')
         | Inr (frame # _) \<Rightarrow> convertSingleImage im d frame unit)
      else if DisplayUnit.IsAnimated unit \<and> contentType = ''image/gif'' then
        (case gif_DecodeAll im r of
           Inl err \<Rightarrow> Inl (Wrapped ''failed to convert animated gif'' err)
         | Inr ([], _, _) \<Rightarrow> Inl (Errorf ''gif has no frames'')
         | Inr (frame # _, cw, ch) \<Rightarrow>
            (let width = (if cw = 0 \<or> ch = 0 then Dx im frame else cw);
                 height = (if cw = 0 \<or> ch = 0 then Dy im frame else ch);
                 canvas = Draw_Over im (NewRGBA im width height) frame
             in convertSingleImage im d canvas unit))
      else
        (case image_Decode im r of
           Inl (format, err) \<Rightarrow> Inl (Wrapped (''failed to convert '' @ format) err)
         | Inr img \<Rightarrow> convertSingleImage im d img unit))"

text \<open>
  The image that \<^verbatim>\<open>convertSingleImage\<close> hands to the sixel encoder (lines 219 to 237, 243):
  the image, padded on the right when the unit asks for it, scaled to the cell height.
\<close>

definition encoder_input ::
  "('img, 'f) imaging \<Rightarrow> 'f DisplayManager \<Rightarrow> 'img \<Rightarrow> DisplayUnit \<Rightarrow> 'img" where
  "encoder_input im d img0 unit =
     (let img = (if 0 < RightPadding unit then addRightPadding im img0 (RightPadding unit) else img0)
      in Scale im
           (NewRGBA im (scaledWidth im (cellHeight d) (Dx im img) (Dy im img0))
              (truncInt im (cellHeight d)))
           img)"

text \<open>
  The image that \<^verbatim>\<open>convertImageBytes\<close> makes of the first frame of an animated GIF (lines
  192 to 198): the frame drawn onto a canvas of the size of the GIF's \<^verbatim>\<open>Config\<close>, or of the
  frame's own size when the \<^verbatim>\<open>Config\<close> has a zero width or height.
\<close>

definition gif_first_frame :: "('img, 'f) imaging \<Rightarrow> 'img \<Rightarrow> int \<Rightarrow> int \<Rightarrow> 'img" where
  "gif_first_frame im frame cw ch =
     (if cw = 0 \<or> ch = 0 then Draw_Over im (NewRGBA im (Dx im frame) (Dy im frame)) frame
      else Draw_Over im (NewRGBA im cw ch) frame)"

subsection \<open>Convert and the session cache\<close>

text \<open>
  The state that \<^verbatim>\<open>Convert\<close> reads and writes: the two package variables (the session cache
  and the placement counter, an \<^verbatim>\<open>atomic.Int32\<close>), the file system behind \<^verbatim>\<open>d.fs\<close>, and the
  number of times a loader has been invoked so far.
\<close>

record world =
  globalPlacedImages :: syncmap
  globalImagePlacementIDCounter :: "32 word"
  fs :: afero_Fs
  loadCalls :: nat

text \<open>
  The third step of \<^verbatim>\<open>Convert\<close>, lines 108 to 133: invoke the loader, convert, store in the
  session cache, write to the persistent cache (an error there is logged only), return
  the payload. \<open>now\<close> is the value of \<^verbatim>\<open>time.Now()\<close>.
\<close>

definition Convert_download ::
  "storage \<Rightarrow> ('img, 'f) imaging \<Rightarrow> 'f DisplayManager \<Rightarrow> int \<Rightarrow> DisplayUnit \<Rightarrow> 32 word \<Rightarrow> world \<Rightarrow>
   (KittyDisplayUnit \<times> error option) \<times> world" where
  "Convert_download lib im d now unit incrementID w0 =
     (let w1 = w0\<lparr>loadCalls := loadCalls w0 + 1\<rparr> in
      case Load unit of
        Inl err \<Rightarrow> ((KittyDisplayUnit_zero, Some err), w1)
      | Inr (imageBody, contentType) \<Rightarrow>
         (case convertImageBytes im d imageBody unit contentType of
            Inl err \<Rightarrow> ((KittyDisplayUnit_zero, Some err), w1)
          | Inr decoded0 \<Rightarrow>
             (let decoded = decoded0\<lparr>DecodedImage.ID := incrementID, lastUsed := now\<rparr>;
                  w2 = w1\<lparr>globalPlacedImages :=
                          AList.update (DisplayUnit.ID unit) (DecodedImageV decoded) (globalPlacedImages w1)\<rparr>;
                  (err, f') = cacheDecodedImage lib (fs w2) decoded unit
              in ((KittyDisplayUnit_zero\<lparr>ReplacementText := SixelData decoded\<rparr>, None),
                  w2\<lparr>fs := f'\<rparr>))))"

text \<open>
  The second step, lines 90 to 106, falling through to the third: the counter is
  incremented, the persistent cache is asked, an error of \<^verbatim>\<open>openCached\<close> is logged only,
  and a found image is stored in the session cache and returned.
\<close>

definition Convert_uncached ::
  "storage \<Rightarrow> ('img, 'f) imaging \<Rightarrow> 'f DisplayManager \<Rightarrow> int \<Rightarrow> DisplayUnit \<Rightarrow> world \<Rightarrow>
   (KittyDisplayUnit \<times> error option) \<times> world" where
  "Convert_uncached lib im d now unit w0 =
     (let incrementID = globalImagePlacementIDCounter w0 + 1;
          w1 = w0\<lparr>globalImagePlacementIDCounter := incrementID\<rparr>;
          ((cachedDecoded0, found, err), f') = openCached lib (fs w1) unit;
          w2 = w1\<lparr>fs := f'\<rparr>
      in if found then
           (let cachedDecoded = cachedDecoded0\<lparr>DecodedImage.ID := incrementID, lastUsed := now\<rparr>;
                w3 = w2\<lparr>globalPlacedImages :=
                        AList.update (DisplayUnit.ID unit) (DecodedImageV cachedDecoded) (globalPlacedImages w2)\<rparr>
            in ((KittyDisplayUnit_zero\<lparr>ReplacementText := SixelData cachedDecoded\<rparr>, None), w3))
         else Convert_download lib im d now unit incrementID w2)"

text \<open>
  \<^verbatim>\<open>func (d *DisplayManager) Convert(unit) (kittyimg.KittyDisplayUnit, error)\<close>, lines 73 to
  134. The first step: an entry of the session cache that is a \<^verbatim>\<open>DecodedImage\<close> gets a new
  \<^verbatim>\<open>lastUsed\<close> and is returned; an entry of another type is deleted, and the call goes on
  as if there had been none.
\<close>

definition Convert ::
  "storage \<Rightarrow> ('img, 'f) imaging \<Rightarrow> 'f DisplayManager \<Rightarrow> int \<Rightarrow> DisplayUnit \<Rightarrow> world \<Rightarrow>
   (KittyDisplayUnit \<times> error option) \<times> world" where
  "Convert lib im d now unit w =
     (case map_of (globalPlacedImages w) (DisplayUnit.ID unit) of
        Some (DecodedImageV i0) \<Rightarrow>
          (let i = i0\<lparr>lastUsed := now\<rparr>
           in ((KittyDisplayUnit_zero\<lparr>ReplacementText := SixelData i\<rparr>, None),
               w\<lparr>globalPlacedImages :=
                    AList.update (DisplayUnit.ID unit) (DecodedImageV i) (globalPlacedImages w)\<rparr>))
      | Some OtherValue \<Rightarrow>
          Convert_uncached lib im d now unit
            (w\<lparr>globalPlacedImages := AList.delete (DisplayUnit.ID unit) (globalPlacedImages w)\<rparr>)
      | None \<Rightarrow> Convert_uncached lib im d now unit w)"

subsection \<open>Cleaning the session cache\<close>

text \<open>
  \<^verbatim>\<open>time.Duration\<close> is an \<^verbatim>\<open>int64\<close> of nanoseconds, and \<^verbatim>\<open>time.Since(t)\<close> is
  \<^verbatim>\<open>time.Now().Sub(t)\<close>, which saturates at the least and the greatest duration.
\<close>

definition minDuration :: int where
  "minDuration = - (2 ^ 63)"

definition maxDuration :: int where
  "maxDuration = 2 ^ 63 - 1"

definition Since :: "int \<Rightarrow> int \<Rightarrow> int" where
  "Since now t = max minDuration (min maxDuration (now - t))"

text \<open>
  The callback of \<^verbatim>\<open>Range\<close> in \<^verbatim>\<open>CleanupOldImagesCommand\<close> (lines 140 to 150), applied to a
  key and its value: a value that is not a \<^verbatim>\<open>DecodedImage\<close> is deleted, and so is one whose
  \<^verbatim>\<open>lastUsed\<close> is more than \<^verbatim>\<open>maxAge\<close> ago. \<open>clock key\<close> is the value of \<^verbatim>\<open>time.Now()\<close> when
  the callback runs for that key.
\<close>

definition cleanup_visit :: "(string \<Rightarrow> int) \<Rightarrow> int \<Rightarrow> string \<Rightarrow> any_value \<Rightarrow> syncmap \<Rightarrow> syncmap" where
  "cleanup_visit clock maxAge key v m =
     (case v of
        OtherValue \<Rightarrow> AList.delete key m
      | DecodedImageV c \<Rightarrow>
          if maxAge < Since (clock key) (lastUsed c) then AList.delete key m else m)"

text \<open>
  \<^verbatim>\<open>Range\<close> calls the callback once for each key of the map, with the value the map holds
  for it; a key deleted meanwhile is not visited.
\<close>

fun cleanup_Range :: "(string \<Rightarrow> int) \<Rightarrow> int \<Rightarrow> string list \<Rightarrow> syncmap \<Rightarrow> syncmap" where
  "cleanup_Range clock maxAge [] m = m"
| "cleanup_Range clock maxAge (key # keys) m =
     cleanup_Range clock maxAge keys
       (case map_of m key of None \<Rightarrow> m | Some v \<Rightarrow> cleanup_visit clock maxAge key v m)"

text \<open>\<^verbatim>\<open>CleanupOldImagesCommand\<close>, lines 137 to 152; it returns the empty string.\<close>

definition CleanupOldImagesCommand :: "(string \<Rightarrow> int) \<Rightarrow> int \<Rightarrow> world \<Rightarrow> string \<times> world" where
  "CleanupOldImagesCommand clock maxAge w =
     ([], w\<lparr>globalPlacedImages :=
              cleanup_Range clock maxAge (remdups (map fst (globalPlacedImages w))) (globalPlacedImages w)\<rparr>)"

text \<open>\<^verbatim>\<open>CleanupAllImagesCommand\<close>, lines 155 to 157.\<close>

definition CleanupAllImagesCommand :: "world \<Rightarrow> string \<times> world" where
  "CleanupAllImagesCommand w = ([], w)"

text \<open>What the cleanup is to leave of the value stored for a key: a \<^verbatim>\<open>DecodedImage\<close> used at
  most \<^verbatim>\<open>maxAge\<close> ago stays, anything else goes.\<close>

definition kept :: "(string \<Rightarrow> int) \<Rightarrow> int \<Rightarrow> string \<Rightarrow> any_value option \<Rightarrow> any_value option" where
  "kept clock maxAge k vo =
     (case vo of
        Some (DecodedImageV c) \<Rightarrow>
          if Since (clock k) (lastUsed c) \<le> maxAge then Some (DecodedImageV c) else None
      | _ \<Rightarrow> None)"

subsection \<open>Where a call of Convert goes\<close>

text \<open>
  The session cache holds no \<^verbatim>\<open>DecodedImage\<close> for the unit's ID: the first step of
  \<^verbatim>\<open>Convert\<close> does not return.
\<close>

definition no_session_image :: "world \<Rightarrow> DisplayUnit \<Rightarrow> bool" where
  "no_session_image w unit =
     (case map_of (globalPlacedImages w) (DisplayUnit.ID unit) of
        Some (DecodedImageV i) \<Rightarrow> False
      | _ \<Rightarrow> True)"

text \<open>
  The call reaches the third step (the cold path): the first step does not return, and
  \<^verbatim>\<open>openCached\<close> does not find the image.
\<close>

definition on_cold_path :: "storage \<Rightarrow> DisplayUnit \<Rightarrow> world \<Rightarrow> bool" where
  "on_cold_path lib unit w =
     (no_session_image w unit \<and> \<not> fst (snd (fst (openCached lib (fs w) unit))))"

text \<open>Removing the entry of a key from the session cache (\<^verbatim>\<open>globalPlacedImages.Delete\<close>).\<close>

definition evict :: "string \<Rightarrow> world \<Rightarrow> world" where
  "evict key w = w\<lparr>globalPlacedImages := AList.delete key (globalPlacedImages w)\<rparr>"

subsection \<open>When the persistent cache can hold an image\<close>

text \<open>The directory of the unit in the persistent cache (lines 351 and 255, 303).\<close>

definition cacheDir :: "storage \<Rightarrow> DisplayUnit \<Rightarrow> string" where
  "cacheDir lib unit = filepath_Join lib [BaseImageDirectory lib, ''sixel'', Directory unit]"

text \<open>
  The file system lets the unit's entry be written: making the directory succeeds or
  reports that it exists, creating and writing the metadata file and the payload file do
  not fail, and the two files have different paths.
\<close>

definition cache_files_writable :: "storage \<Rightarrow> afero_Fs \<Rightarrow> DisplayUnit \<Rightarrow> bool" where
  "cache_files_writable lib f unit =
     (let dir = cacheDir lib unit;
          mp = metaImageFilePath lib dir unit;
          cp = compressedPath lib dir unit
      in (case MkdirAll_fault f dir of None \<Rightarrow> True | Some err \<Rightarrow> errors_Is err ErrExist) \<and>
         Create_fault f mp = None \<and> Create_fault f cp = None \<and>
         Write_fault f mp = None \<and> Write_fault f cp = None \<and>
         mp \<noteq> cp)"

text \<open>
  The file system lets the unit's entry be written and read: making the directory
  succeeds or reports that it exists, creating, writing and reading the metadata file and
  the payload file do not fail, and the two files have different paths.
\<close>

definition cache_files_usable :: "storage \<Rightarrow> afero_Fs \<Rightarrow> DisplayUnit \<Rightarrow> bool" where
  "cache_files_usable lib f unit =
     (let dir = cacheDir lib unit;
          mp = metaImageFilePath lib dir unit;
          cp = compressedPath lib dir unit
      in (case MkdirAll_fault f dir of None \<Rightarrow> True | Some err \<Rightarrow> errors_Is err ErrExist) \<and>
         Create_fault f mp = None \<and> Create_fault f cp = None \<and>
         Write_fault f mp = None \<and> Write_fault f cp = None \<and>
         ReadFile_fault f mp = None \<and> ReadFile_fault f cp = None \<and>
         mp \<noteq> cp)"

text \<open>
  The libraries do on this image what they are for: zlib compresses the payload and
  decompresses the result to the payload, and the JSON decoder reads the metadata record
  back from the text the encoder writes for it.
\<close>

definition codecs_roundtrip :: "storage \<Rightarrow> DisplayUnit \<Rightarrow> DecodedImage \<Rightarrow> bool" where
  "codecs_roundtrip lib unit dec =
     (let m = \<lparr>meta_Cols = Cols dec, EncodedPath = compressedPath lib (cacheDir lib unit) unit\<rparr>
      in (case zlib_compress lib (SixelData dec) of
            Inl err \<Rightarrow> False
          | Inr z \<Rightarrow> zlib_decompress lib z = Inr (SixelData dec)) \<and>
         json_Unmarshal lib (json_Marshal lib m @ [CHR 0x0A]) = Inr m)"

section \<open>Concrete inputs\<close>

text \<open>Small concrete values on which the functions above are evaluated further down.\<close>

subsection \<open>An emote set with a duplicate text\<close>

definition emote_LUL :: Emote where
  "emote_LUL = \<lparr>Emote.ID = ''425618'', Emote.Text = ''LUL'', Emote.Platform = Twitch,
     Emote.URL = ''https://static-cdn.jtvnw.net/emoticons/v2/425618/default/light/1.0'',
     Emote.IsAnimated = False, Emote.Format = ''static'', Emote.TTVEmoteType = []\<rparr>"

definition emote_Kappa_ttv :: Emote where
  "emote_Kappa_ttv = \<lparr>Emote.ID = ''25'', Emote.Text = ''Kappa'', Emote.Platform = Twitch,
     Emote.URL = ''https://static-cdn.jtvnw.net/emoticons/v2/25/default/light/1.0'',
     Emote.IsAnimated = False, Emote.Format = ''static'', Emote.TTVEmoteType = []\<rparr>"

definition emote_Kappa_bttv :: Emote where
  "emote_Kappa_bttv = \<lparr>Emote.ID = ''5f1b0186cf6d2144653d2970'', Emote.Text = ''Kappa'', Emote.Platform = BTTV,
     Emote.URL = ''https://cdn.betterttv.net/emote/5f1b0186cf6d2144653d2970/1x'',
     Emote.IsAnimated = True, Emote.Format = ''gif'', Emote.TTVEmoteType = []\<rparr>"

definition sample_set :: EmoteSet where
  "sample_set = [emote_LUL, emote_Kappa_ttv, emote_Kappa_bttv]"

subsection \<open>FrankerFaceZ responses\<close>

definition emote_ZreknarF :: ffzEmote where
  "emote_ZreknarF = \<lparr>ffzEmote.ID = 9, Name = ''ZreknarF'', Height = 20, Width = 40,
     Modifier = False, URLs = [(''1'', ''//cdn.frankerfacez.com/emote/9/1'')]\<rparr>"

definition emote_LilZ :: ffzEmote where
  "emote_LilZ = \<lparr>ffzEmote.ID = 6, Name = ''LilZ'', Height = 20, Width = 32,
     Modifier = False, URLs = [(''1'', ''//cdn.frankerfacez.com/emote/6/1'')]\<rparr>"

definition emote_YooHoo :: ffzEmote where
  "emote_YooHoo = \<lparr>ffzEmote.ID = 25927, Name = ''YooHoo'', Height = 32, Width = 32,
     Modifier = False, URLs = [(''1'', ''//cdn.frankerfacez.com/emote/25927/1'')]\<rparr>"

definition emote_ffzHyper :: ffzEmote where
  "emote_ffzHyper = \<lparr>ffzEmote.ID = 720507, Name = ''ffzHyper'', Height = 1, Width = 1,
     Modifier = True, URLs = [(''1'', ''//cdn.frankerfacez.com/emote/720507/1'')]\<rparr>"

text \<open>
  A response of \<^verbatim>\<open>/set/global\<close> with four sets: two are default sets, one is not listed in
  \<^verbatim>\<open>default_sets\<close>, and one has a key that is not an integer.
\<close>

definition sample_global :: globalResponse where
  "sample_global = \<lparr>DefaultSets = [3, 1539687],
     Sets = [(''4330'', \<lparr>emoteSet.ID = 4330, Emoticons = [emote_YooHoo]\<rparr>),
             (''3'', \<lparr>emoteSet.ID = 3, Emoticons = [emote_ZreknarF, emote_LilZ]\<rparr>),
             (''staff'', \<lparr>emoteSet.ID = 7, Emoticons = [emote_YooHoo]\<rparr>),
             (''1539687'', \<lparr>emoteSet.ID = 1539687, Emoticons = [emote_ffzHyper]\<rparr>)]\<rparr>"

definition sample_global_body :: string where
  \<open>sample_global_body =
     ''{"default_sets":[3,1539687],"sets":{'' @
     ''"4330":{"id":4330,"emoticons":[{"id":25927,"name":"YooHoo","height":32,"width":32,"modifier":false,"urls":{"1":"//cdn.frankerfacez.com/emote/25927/1"}}]},'' @
     ''"3":{"id":3,"emoticons":[{"id":9,"name":"ZreknarF","height":20,"width":40,"modifier":false,"urls":{"1":"//cdn.frankerfacez.com/emote/9/1"}},'' @
     ''{"id":6,"name":"LilZ","height":20,"width":32,"modifier":false,"urls":{"1":"//cdn.frankerfacez.com/emote/6/1"}}]},'' @
     ''"staff":{"id":7,"emoticons":[{"id":25927,"name":"YooHoo","height":32,"width":32,"modifier":false,"urls":{"1":"//cdn.frankerfacez.com/emote/25927/1"}}]},'' @
     ''"1539687":{"id":1539687,"emoticons":[{"id":720507,"name":"ffzHyper","height":1,"width":1,"modifier":true,"urls":{"1":"//cdn.frankerfacez.com/emote/720507/1"}}]}}}''\<close>

definition sample_error_body :: string where
  \<open>sample_error_body = ''{"status":404,"error":"Not Found","message":"No such room"}''\<close>

definition sample_html_body :: string where
  \<open>sample_html_body = ''<html><body><h1>502 Bad Gateway</h1></body></html>''\<close>

text \<open>
  The JSON decoder on these bodies: it decodes the two JSON documents and reports a syntax
  error on anything else.
\<close>

definition sample_unmarshal :: "string \<Rightarrow> globalResponse \<Rightarrow> globalResponse \<times> string option" where
  "sample_unmarshal body data =
     (if body = sample_global_body then (sample_global, None)
      else (data, Some ''invalid character looking for beginning of value''))"

definition sample_json_message :: "string \<Rightarrow> string option \<times> string option" where
  "sample_json_message body =
     (if body = sample_error_body then (Some ''No such room'', None)
      else if body = sample_global_body then (None, None)
      else (None, Some ''invalid character looking for beginning of value''))"

text \<open>A client that answers every request with the given response.\<close>

definition client_with :: "Response \<Rightarrow> http_Client" where
  "client_with resp =
     \<lparr>NewRequestWithContext = (\<lambda>method url. None), Do = (\<lambda>method url. Inr resp)\<rparr>"

definition response_200 :: Response where
  "response_200 = \<lparr>Response.StatusCode = 200, Response.Status = ''200 OK'',
     Body = Inr sample_global_body\<rparr>"

definition response_404 :: Response where
  "response_404 = \<lparr>Response.StatusCode = 404, Response.Status = ''404 Not Found'',
     Body = Inr sample_error_body\<rparr>"

definition response_502 :: Response where
  "response_502 = \<lparr>Response.StatusCode = 502, Response.Status = ''502 Bad Gateway'',
     Body = Inr sample_html_body\<rparr>"

subsection \<open>A small instance of the libraries of the display manager\<close>

text \<open>
  Paths are joined with a slash, empty elements dropped; \<^verbatim>\<open>Clean\<close> leaves a plain file name
  as it is.
\<close>

definition sample_Join :: "string list \<Rightarrow> string" where
  "sample_Join elems =
     (case filter (\<lambda>e. e \<noteq> []) elems of
        [] \<Rightarrow> []
      | e # es \<Rightarrow> foldl (\<lambda>a b. a @ ''/'' @ b) e es)"

definition sample_Clean :: "string \<Rightarrow> string" where
  "sample_Clean p = (if p = [] then ''.'' else p)"

text \<open>A stand-in for zlib: the two header bytes, then the data as they are.\<close>

definition zlib_header :: string where
  "zlib_header = [CHR 0x78, CHR 0x9C]"

definition sample_compress :: "string \<Rightarrow> error + string" where
  "sample_compress s = Inr (zlib_header @ s)"

definition sample_decompress :: "string \<Rightarrow> error + string" where
  "sample_decompress z =
     (if take 2 z = zlib_header then Inr (drop 2 z) else Inl (LibError ''zlib: invalid header''))"

text \<open>
  The JSON text of a metadata record, \<^verbatim>\<open>{"cols":N,"encoded_path":"P"}\<close>, and a reader of
  exactly such texts (with or without the final newline).
\<close>

fun show_nat :: "nat \<Rightarrow> string" where
  "show_nat n =
     (if n < 10 then [''0123456789'' ! n]
      else show_nat (n div 10) @ [''0123456789'' ! (n mod 10)])"

declare show_nat.simps [simp del]

definition show_int :: "int \<Rightarrow> string" where
  "show_int i = (if i < 0 then ''-'' @ show_nat (nat (- i)) else show_nat (nat i))"

definition sample_Marshal :: "meta \<Rightarrow> string" where
  \<open>sample_Marshal m =
     ''{"cols":'' @ show_int (meta_Cols m) @ '',"encoded_path":"'' @ EncodedPath m @ ''"}''\<close>

definition sample_Unmarshal :: "string \<Rightarrow> error + meta" where
  \<open>sample_Unmarshal data =
     (let p1 = ''{"cols":'';
          p2 = '',"encoded_path":"'';
          r1 = drop (length p1) data;
          ds = takeWhile is_digit r1;
          r2 = dropWhile is_digit r1;
          r3 = drop (length p2) r2;
          path = takeWhile (\<lambda>c. c \<noteq> CHR 0x22) r3;
          r4 = dropWhile (\<lambda>c. c \<noteq> CHR 0x22) r3
      in if take (length p1) data = p1 \<and> ds \<noteq> [] \<and> take (length p2) r2 = p2 \<and>
            (r4 = ''"}'' \<or> r4 = ''"}'' @ [CHR 0x0A])
         then Inr \<lparr>meta_Cols = foldl (\<lambda>a c. a * 10 + digit_val c) 0 ds, EncodedPath = path\<rparr>
         else Inl (LibError ''invalid character looking for beginning of value''))\<close>

definition sample_storage :: storage where
  "sample_storage =
     \<lparr>BaseImageDirectory = ''/data/chatuino'',
      filepath_Join = sample_Join,
      filepath_Clean = sample_Clean,
      zlib_compress = sample_compress,
      zlib_decompress = sample_decompress,
      json_Marshal = sample_Marshal,
      json_Unmarshal = sample_Unmarshal\<rparr>"

text \<open>
  A stand-in for the image libraries. An image is its width and height; the image file
  of this instance has two bytes, the width and the height, and anything else does not
  decode. The sixel text of an image is the introducer, one character for each column
  and the terminator, and the empty text for an image without pixels. Cell sizes are
  whole pixels, and the scaled width is the rounded exact quotient (the code rounds a
  \<^verbatim>\<open>float32\<close> product, which for some sizes is one less).
\<close>

definition sample_decode :: "string \<Rightarrow> error + (int \<times> int)" where
  "sample_decode body =
     (case body of
        [w, h] \<Rightarrow> Inr (int (of_char w), int (of_char h))
      | _ \<Rightarrow> Inl (LibError ''image: unknown format''))"

definition sample_sixel :: "int \<times> int \<Rightarrow> error + string" where
  "sample_sixel img =
     (if fst img \<le> 0 \<or> snd img \<le> 0 then Inr []
      else Inr ([CHR 0x1B] @ ''Pq'' @ replicate (nat (fst img)) (CHR ''~'') @ [CHR 0x1B, CHR 0x5C]))"

definition sample_imaging :: "(int \<times> int, int) imaging" where
  "sample_imaging =
     \<lparr>avif_DecodeAll = (\<lambda>r. case sample_decode r of Inl e \<Rightarrow> Inl e | Inr i \<Rightarrow> Inr [i]),
      awebp_DecodeAll = (\<lambda>r. case sample_decode r of Inl e \<Rightarrow> Inl e | Inr i \<Rightarrow> Inr [i]),
      gif_DecodeAll = (\<lambda>r. case sample_decode r of Inl e \<Rightarrow> Inl e | Inr i \<Rightarrow> Inr ([i], fst i, snd i)),
      image_Decode = (\<lambda>r. case sample_decode r of Inl e \<Rightarrow> Inl ([], e) | Inr i \<Rightarrow> Inr i),
      Dx = fst,
      Dy = snd,
      NewRGBA = (\<lambda>w h. (w, h)),
      Draw_Over = (\<lambda>dst src. dst),
      Draw_Src = (\<lambda>dst src. dst),
      Scale = (\<lambda>dst src. dst),
      sixel_Encode = sample_sixel,
      scaledWidth = (\<lambda>h w0 h0. if h0 = 0 then 0 else (2 * w0 * h + h0) div (2 * h0)),
      truncInt = (\<lambda>h. h),
      colsOf = (\<lambda>w c. if c = 0 then 0 else (w + c - 1) div c)\<rparr>"

text \<open>The same libraries with a sixel encoder whose writer fails.\<close>

definition failing_encoder_imaging :: "(int \<times> int, int) imaging" where
  "failing_encoder_imaging =
     sample_imaging\<lparr>sixel_Encode := (\<lambda>img. Inl (LibError ''write: broken pipe''))\<rparr>"

text \<open>The same libraries with an AVIF decoder that finds no frame.\<close>

definition frameless_imaging :: "(int \<times> int, int) imaging" where
  "frameless_imaging = sample_imaging\<lparr>avif_DecodeAll := (\<lambda>r. Inr [])\<rparr>"

definition sample_manager :: "int DisplayManager" where
  "sample_manager = \<lparr>cellWidth = 10, cellHeight = 20\<rparr>"

subsection \<open>Display units, file systems and states\<close>

text \<open>An image of 28 by 28 pixels, served as PNG.\<close>

definition unit_ok :: DisplayUnit where
  "unit_ok = \<lparr>DisplayUnit.ID = ''ffz.9'', Directory = ''emote'', DisplayUnit.IsAnimated = False,
     RightPadding = 0, Load = Inr ([CHR 28, CHR 28], ''image/png'')\<rparr>"

text \<open>
  The same unit with a loader that fails, with an image served as AVIF, and with a loader
  that yields no image.
\<close>

definition unit_unreachable :: DisplayUnit where
  "unit_unreachable = unit_ok\<lparr>Load := Inl (LibError ''connection refused'')\<rparr>"

definition unit_avif :: DisplayUnit where
  "unit_avif = unit_ok\<lparr>Load := Inr ([CHR 28, CHR 28], ''image/avif'')\<rparr>"

definition unit_garbage :: DisplayUnit where
  "unit_garbage = unit_ok\<lparr>Load := Inr (''<html>not found</html>'', ''image/png'')\<rparr>"

definition empty_fs :: afero_Fs where
  "empty_fs = \<lparr>files = Map.empty, dirs = {},
     MkdirAll_fault = (\<lambda>p. None), Create_fault = (\<lambda>p. None),
     Write_fault = (\<lambda>p. None), ReadFile_fault = (\<lambda>p. None)\<rparr>"

text \<open>A file system on which no file can be created.\<close>

definition readonly_fs :: afero_Fs where
  "readonly_fs = empty_fs\<lparr>Create_fault := (\<lambda>p. Some (LibError ''read-only file system''))\<rparr>"

text \<open>A file system whose metadata file for \<^verbatim>\<open>ffz.9\<close> is not JSON.\<close>

definition corrupt_fs :: afero_Fs where
  "corrupt_fs = empty_fs\<lparr>files := [''/data/chatuino/sixel/emote/ffz.9.sixel.json'' \<mapsto> ''{'']\<rparr>"

definition world_with :: "afero_Fs \<Rightarrow> world" where
  "world_with f = \<lparr>globalPlacedImages = [], globalImagePlacementIDCounter = 0, fs = f,
     loadCalls = 0\<rparr>"

text \<open>The sixel text of the 28 by 28 image scaled to a cell height of 20.\<close>

definition sixel_ok :: string where
  "sixel_ok = [CHR 0x1B] @ ''Pq'' @ replicate 20 (CHR ''~'') @ [CHR 0x1B, CHR 0x5C]"

text \<open>\<^verbatim>\<open>Convert\<close> of the display manager built from this instance, with 10 by 20 cells.\<close>

definition sample_Convert ::
  "int \<Rightarrow> DisplayUnit \<Rightarrow> world \<Rightarrow> (KittyDisplayUnit \<times> error option) \<times> world" where
  "sample_Convert = Convert sample_storage sample_imaging sample_manager"

text \<open>
  A session cache with an image last used at 1000, one last used at 4000, and a value
  that is no image.
\<close>

definition sample_cache :: syncmap where
  "sample_cache =
     [(''ffz.9'', DecodedImageV \<lparr>DecodedImage.ID = 1, Cols = 2, SixelData = sixel_ok, lastUsed = 1000\<rparr>),
      (''ttv.25'', DecodedImageV \<lparr>DecodedImage.ID = 2, Cols = 3, SixelData = sixel_ok, lastUsed = 4000\<rparr>),
      (''stray'', OtherValue)]"

definition world_cached :: world where
  "world_cached = (world_with empty_fs)\<lparr>globalPlacedImages := sample_cache\<rparr>"

text \<open>The two cache files of \<^verbatim>\<open>ffz.9\<close> and the JSON text of its metadata.\<close>

definition meta_path_ok :: string where
  "meta_path_ok = ''/data/chatuino/sixel/emote/ffz.9.sixel.json''"

definition payload_path_ok :: string where
  "payload_path_ok = ''/data/chatuino/sixel/emote/ffz.9.sixel.zlib''"

definition meta_json_ok :: string where
  \<open>meta_json_ok =
     ''{"cols":2,"encoded_path":"/data/chatuino/sixel/emote/ffz.9.sixel.zlib"}'' @ [CHR 0x0A]\<close>

section \<open>Properties of the emote set\<close>

lemma GetByText_at_first_index:
  "i < length s \<Longrightarrow> Text (s ! i) = text \<Longrightarrow> (\<forall>j<i. Text (s ! j) \<noteq> text) \<Longrightarrow>
   GetByText s text = (s ! i, True)"
proof (induction s arbitrary: i)
  case Nil
  then show ?case by simp
next
  case (Cons e es)
  show ?case
  proof (cases i)
    case 0
    with Cons.prems show ?thesis by simp
  next
    case (Suc k)
    with Cons.prems have head: "Text e \<noteq> text" by auto
    have "\<forall>j<k. Text (es ! j) \<noteq> text"
    proof (intro allI impI)
      fix j assume "j < k"
      then have "Suc j < i" using Suc by simp
      with Cons.prems(3) have "Text ((e # es) ! Suc j) \<noteq> text" by blast
      then show "Text (es ! j) \<noteq> text" by simp
    qed
    then have "GetByText es text = (es ! k, True)"
      using Cons.IH[of k] Cons.prems(1,2) Suc by simp
    with head show ?thesis using Suc by simp
  qed
qed

lemma GetByText_no_match:
  "(\<forall>e \<in> set s. Text e \<noteq> text) \<Longrightarrow> GetByText s text = (Emote_zero, False)"
  by (induction s) auto

text \<open>
  C4. \<^verbatim>\<open>GetByText\<close> scans the set in insertion order: if index \<open>i\<close> holds the first element
  whose \<^verbatim>\<open>Text\<close> equals the query, that element is returned together with \<^verbatim>\<open>true\<close> (of two
  emotes with the same text the one inserted earlier wins); if no element's \<^verbatim>\<open>Text\<close> equals
  the query, the zero-valued \<^verbatim>\<open>Emote\<close> and \<^verbatim>\<open>false\<close> are returned.
\<close>

theorem GetByText_first_match:
  "(i < length s \<and> Text (s ! i) = text \<and> (\<forall>j<i. Text (s ! j) \<noteq> text)
      \<longrightarrow> GetByText s text = (s ! i, True)) \<and>
   ((\<forall>e \<in> set s. Text e \<noteq> text) \<longrightarrow> GetByText s text = (Emote_zero, False))"
  using GetByText_at_first_index[of i s "text"] GetByText_no_match[of s "text"] by blast

theorem GetByText_first_match_witness:
  "1 < length sample_set \<and> Text (sample_set ! 1) = ''Kappa'' \<and>
   Text (sample_set ! 0) \<noteq> ''Kappa'' \<and>
   GetByText sample_set ''Kappa'' = (emote_Kappa_ttv, True) \<and>
   GetByText sample_set ''PogChamp'' = (Emote_zero, False)"
proof -
  have h1: "1 < length sample_set \<and> Text (sample_set ! 1) = ''Kappa'' \<and>
      (\<forall>j<1. Text (sample_set ! j) \<noteq> ''Kappa'')"
    by (simp add: sample_set_def emote_LUL_def emote_Kappa_ttv_def)
  have h2: "\<forall>e \<in> set sample_set. Text e \<noteq> ''PogChamp''"
    by (simp add: sample_set_def emote_LUL_def emote_Kappa_ttv_def emote_Kappa_bttv_def)
  have r1: "GetByText sample_set ''Kappa'' = (sample_set ! 1, True)"
    using GetByText_first_match[of 1 sample_set "''Kappa''"] h1 by blast
  have r2: "GetByText sample_set ''PogChamp'' = (Emote_zero, False)"
    using GetByText_first_match[of 0 sample_set "''PogChamp''"] h2 by blast
  have "sample_set ! 1 = emote_Kappa_ttv" by (simp add: sample_set_def)
  with h1 h2 r1 r2 show ?thesis by simp
qed

section \<open>Properties of the FrankerFaceZ client\<close>

lemma foldl_insert_set: "foldl (\<lambda>m i. insert i m) A xs = A \<union> set xs"
  by (induction xs arbitrary: A) auto

lemma GetGlobalEmotes_loop_filter:
  "GetGlobalEmotes_loop (set ds) sets acc =
     acc @ concat (map (\<lambda>kv. Emoticons (snd kv)) (filter (is_default_set ds) sets))"
proof (induction sets arbitrary: acc)
  case Nil
  show ?case by simp
next
  case (Cons kv rest)
  obtain k s where kv: "kv = (k, s)" by (cases kv)
  show ?case
  proof (cases "Atoi k")
    case None
    then show ?thesis using Cons.IH[of acc] by (simp add: kv is_default_set_def)
  next
    case (Some i)
    show ?thesis
    proof (cases "i \<in> set ds")
      case True
      then show ?thesis
        using Some Cons.IH[of "acc @ Emoticons s"] by (simp add: kv is_default_set_def)
    next
      case False
      then show ?thesis using Some Cons.IH[of acc] by (simp add: kv is_default_set_def)
    qed
  qed
qed

lemma doRequest_response_200:
  "doRequest (client_with response_200) sample_unmarshal sample_json_message
     globalResponse_zero ''GET'' ''/set/global'' = (sample_global, None)"
  by (simp add: doRequest_def client_with_def response_200_def sample_unmarshal_def)

lemma default_set_emotes_sample:
  "default_set_emotes sample_global = [emote_ZreknarF, emote_LilZ, emote_ffzHyper]"
  by (simp add: default_set_emotes_def sample_global_def is_default_set_def Atoi_def
      is_digit_def digit_val_def)

text \<open>
  C10. When the request succeeds with the response \<open>resp\<close>, \<^verbatim>\<open>GetGlobalEmotes\<close> returns
  exactly the emotes of those sets of \<open>resp\<close> whose key parses as an integer that
  \<^verbatim>\<open>default_sets\<close> contains, in the order the sets are visited; a set whose key is not
  an integer or is not listed contributes nothing.
\<close>

theorem GetGlobalEmotes_default_sets:
  assumes "doRequest client unmarshal json_message globalResponse_zero ''GET'' ''/set/global''
             = (resp, None)"
  shows "GetGlobalEmotes client unmarshal json_message = (default_set_emotes resp, None)"
  using assms
  by (simp add: GetGlobalEmotes_def default_set_emotes_def foldl_insert_set
      GetGlobalEmotes_loop_filter[where acc = "[]", simplified])

theorem GetGlobalEmotes_default_sets_witness:
  "GetGlobalEmotes (client_with response_200) sample_unmarshal sample_json_message =
     ([emote_ZreknarF, emote_LilZ, emote_ffzHyper], None)"
  using GetGlobalEmotes_default_sets[OF doRequest_response_200] default_set_emotes_sample
  by simp

text \<open>
  C5, as stated, fails: a response with status 502 whose body is an HTML page is not
  turned into an \<^verbatim>\<open>APIError\<close>; the caller gets the decoder's error.
\<close>

theorem doRequest_undecodable_error_body:
  "Response.StatusCode response_502 = 502 \<and>
   snd (doRequest (client_with response_502) sample_unmarshal sample_json_message
          globalResponse_zero ''GET'' ''/set/global'') =
     Some (LibErr ''invalid character looking for beginning of value'')"
  by (simp add: doRequest_def client_with_def response_502_def sample_json_message_def
      Unmarshal_APIError_def sample_html_body_def sample_error_body_def sample_global_body_def)

text \<open>
  C5, amended. Let the request be built, a response arrive and its body be read. If the
  status code is outside 200 to 299 and the body decodes, \<^verbatim>\<open>doRequest\<close> returns an
  \<^verbatim>\<open>APIError\<close> with the HTTP status code, the status text and the decoded message (empty
  when the body has none); if the body does not decode, it returns the decoder's error
  instead. If the status code is within 200 to 299, no \<^verbatim>\<open>APIError\<close> is returned.
\<close>

theorem doRequest_status_error:
  assumes "NewRequestWithContext client method (baseURL @ url) = None"
      and "Do client method (baseURL @ url) = Inr resp"
      and "Body resp = Inr respBody"
  shows "((Response.StatusCode resp < 200 \<or> 300 \<le> Response.StatusCode resp) \<and>
           json_message respBody = (m, None) \<longrightarrow>
           doRequest client unmarshal json_message zero method url =
             (zero, Some (APIErr \<lparr>APIError.StatusCode = Response.StatusCode resp,
                                   APIError.Status = Response.Status resp,
                                   Message = (case m of None \<Rightarrow> [] | Some msg \<Rightarrow> msg)\<rparr>))) \<and>
         ((Response.StatusCode resp < 200 \<or> 300 \<le> Response.StatusCode resp) \<and>
           json_message respBody = (m, Some err) \<longrightarrow>
           doRequest client unmarshal json_message zero method url = (zero, Some (LibErr err))) \<and>
         (200 \<le> Response.StatusCode resp \<and> Response.StatusCode resp < 300 \<longrightarrow>
           (\<forall>e. snd (doRequest client unmarshal json_message zero method url) \<noteq> Some (APIErr e)))"
  using assms
  by (auto simp: doRequest_def Unmarshal_APIError_def APIError_zero_def
      split: option.splits prod.splits)

theorem doRequest_status_error_witness:
  "doRequest (client_with response_404) sample_unmarshal sample_json_message
     globalResponse_zero ''GET'' ''/room/id/0'' =
     (globalResponse_zero,
      Some (APIErr \<lparr>APIError.StatusCode = 404, APIError.Status = ''404 Not Found'',
                     Message = ''No such room''\<rparr>))"
proof -
  have a: "NewRequestWithContext (client_with response_404) ''GET'' (baseURL @ ''/room/id/0'') = None"
    by (simp add: client_with_def)
  have b: "Do (client_with response_404) ''GET'' (baseURL @ ''/room/id/0'') = Inr response_404"
    by (simp add: client_with_def)
  have c: "Body response_404 = Inr sample_error_body"
    by (simp add: response_404_def)
  have d: "(Response.StatusCode response_404 < 200 \<or> 300 \<le> Response.StatusCode response_404) \<and>
      sample_json_message sample_error_body = (Some ''No such room'', None)"
    by (simp add: response_404_def sample_json_message_def)
  show ?thesis
    using doRequest_status_error[OF a b c, of sample_json_message "Some ''No such room''"
        sample_unmarshal globalResponse_zero] d
    by (simp add: response_404_def)
qed

section \<open>Properties of the session cache cleanup\<close>

lemma map_of_cleanup_visit:
  "map_of m key = Some v \<Longrightarrow>
   map_of (cleanup_visit clock maxAge key v m) k =
     (if k = key then
        (case v of
           DecodedImageV c \<Rightarrow> if Since (clock key) (lastUsed c) \<le> maxAge then Some v else None
         | OtherValue \<Rightarrow> None)
      else map_of m k)"
  by (auto simp: cleanup_visit_def delete_conv split: any_value.splits)

lemma kept_idem: "kept clock maxAge k (kept clock maxAge k vo) = kept clock maxAge k vo"
  by (auto simp: kept_def split: option.splits any_value.splits)

lemma map_of_cleanup_Range:
  "map_of (cleanup_Range clock maxAge keys m) k =
     (if k \<in> set keys then kept clock maxAge k (map_of m k) else map_of m k)"
proof (induction keys arbitrary: m)
  case Nil
  show ?case by simp
next
  case (Cons key keys)
  let ?m' = "(case map_of m key of None \<Rightarrow> m | Some v \<Rightarrow> cleanup_visit clock maxAge key v m)"
  have step: "map_of ?m' k = (if k = key then kept clock maxAge k (map_of m k) else map_of m k)"
    by (cases "map_of m key") (auto simp: map_of_cleanup_visit kept_def split: any_value.splits)
  show ?case
    using Cons.IH[of ?m'] step by (auto simp: kept_idem)
qed

text \<open>
  C6. After \<^verbatim>\<open>CleanupOldImagesCommand(maxAge)\<close> the session cache holds for a key exactly
  what it held before, provided that was a \<^verbatim>\<open>DecodedImage\<close> whose \<^verbatim>\<open>lastUsed\<close> is at most
  \<^verbatim>\<open>maxAge\<close> before now (the clock as read when the entry is visited); every other entry
  is gone. So an entry remains if and only if its last-used time is within \<^verbatim>\<open>maxAge\<close> of
  now.
\<close>

theorem CleanupOldImagesCommand_retains:
  "map_of (globalPlacedImages (snd (CleanupOldImagesCommand clock maxAge w))) key =
     (case map_of (globalPlacedImages w) key of
        Some (DecodedImageV c) \<Rightarrow>
          if Since (clock key) (lastUsed c) \<le> maxAge then Some (DecodedImageV c) else None
      | _ \<Rightarrow> None)"
proof -
  have "key \<notin> set (map fst (globalPlacedImages w)) \<Longrightarrow> map_of (globalPlacedImages w) key = None"
    by (simp add: map_of_eq_None_iff)
  then show ?thesis
    by (auto simp: CleanupOldImagesCommand_def map_of_cleanup_Range kept_def
        split: option.splits any_value.splits)
qed

text \<open>
  At the clock reading 6000 and with \<^verbatim>\<open>maxAge\<close> 2000: the image last used at 1000 goes, the
  one last used at 4000 stays, the value that is no image goes.
\<close>

theorem CleanupOldImagesCommand_retains_witness:
  "map_of (globalPlacedImages (snd (CleanupOldImagesCommand (\<lambda>key. 6000) 2000 world_cached)))
     ''ffz.9'' = None \<and>
   map_of (globalPlacedImages (snd (CleanupOldImagesCommand (\<lambda>key. 6000) 2000 world_cached)))
     ''ttv.25'' =
     Some (DecodedImageV \<lparr>DecodedImage.ID = 2, Cols = 3, SixelData = sixel_ok, lastUsed = 4000\<rparr>) \<and>
   map_of (globalPlacedImages (snd (CleanupOldImagesCommand (\<lambda>key. 6000) 2000 world_cached)))
     ''stray'' = None"
  using CleanupOldImagesCommand_retains[of "\<lambda>key. 6000" 2000 world_cached "''ffz.9''"]
    CleanupOldImagesCommand_retains[of "\<lambda>key. 6000" 2000 world_cached "''ttv.25''"]
    CleanupOldImagesCommand_retains[of "\<lambda>key. 6000" 2000 world_cached "''stray''"]
  by (simp add: world_cached_def sample_cache_def world_with_def Since_def minDuration_def
      maxDuration_def)

lemma CleanupOldImagesCommand_sample:
  "globalPlacedImages (snd (CleanupOldImagesCommand (\<lambda>key. 6000) 2000 world_cached)) =
     [(''ttv.25'', DecodedImageV \<lparr>DecodedImage.ID = 2, Cols = 3, SixelData = sixel_ok, lastUsed = 4000\<rparr>)]"
  by (simp add: CleanupOldImagesCommand_def cleanup_visit_def world_cached_def sample_cache_def
      world_with_def Since_def minDuration_def maxDuration_def AList.delete_eq)

section \<open>Properties of Convert\<close>

lemma createGetCacheDirectory_dirs_only:
  "\<exists>D. snd (createGetCacheDirectory lib f dir) = f\<lparr>dirs := D\<rparr>"
proof (cases "MkdirAll_fault f (filepath_Join lib [BaseImageDirectory lib, ''sixel'', dir])")
  case None
  then show ?thesis
    by (auto simp: createGetCacheDirectory_def MkdirAll_def Let_def)
next
  case (Some e)
  then have "snd (createGetCacheDirectory lib f dir) = f"
    by (simp add: createGetCacheDirectory_def MkdirAll_def Let_def)
  moreover have "f = f\<lparr>dirs := dirs f\<rparr>" by simp
  ultimately show ?thesis by metis
qed

lemma openCached_fs:
  "snd (openCached lib f unit) = snd (createGetCacheDirectory lib f (Directory unit))"
  by (simp add: openCached_def split: prod.splits option.splits sum.splits)

lemma openCached_dirs_only: "\<exists>D. snd (openCached lib f unit) = f\<lparr>dirs := D\<rparr>"
  using createGetCacheDirectory_dirs_only[of lib f "Directory unit"] by (simp add: openCached_fs)

lemma openCached_files: "files (snd (openCached lib f unit)) = files f"
  using openCached_dirs_only[of lib f unit] by auto

lemma openCached_error_not_found:
  "snd (snd (fst (openCached lib f unit))) = Some e \<Longrightarrow> \<not> fst (snd (fst (openCached lib f unit)))"
  by (auto simp: openCached_def split: prod.splits option.splits sum.splits if_splits)

text \<open>A call that reaches the cold path is the third step, run after the second.\<close>

lemma Convert_cold:
  assumes "on_cold_path lib unit w"
  shows "Convert lib im d now unit w =
     Convert_download lib im d now unit (globalImagePlacementIDCounter w + 1)
       (w\<lparr>globalPlacedImages := AList.delete (DisplayUnit.ID unit) (globalPlacedImages w),
          globalImagePlacementIDCounter := globalImagePlacementIDCounter w + 1,
          fs := snd (openCached lib (fs w) unit)\<rparr>)"
proof -
  obtain c fnd e f' where oc: "openCached lib (fs w) unit = ((c, fnd, e), f')"
    by (metis prod_cases3 surj_pair)
  with assms have nf: "\<not> fnd" by (simp add: on_cold_path_def)
  have unc: "\<And>w0. fs w0 = fs w \<Longrightarrow> Convert_uncached lib im d now unit w0 =
     Convert_download lib im d now unit (globalImagePlacementIDCounter w0 + 1)
       (w0\<lparr>globalImagePlacementIDCounter := globalImagePlacementIDCounter w0 + 1, fs := f'\<rparr>)"
    using oc nf by (simp add: Convert_uncached_def Let_def)
  show ?thesis
  proof (cases "map_of (globalPlacedImages w) (DisplayUnit.ID unit)")
    case None
    then have "AList.delete (DisplayUnit.ID unit) (globalPlacedImages w) = globalPlacedImages w"
      by (simp add: map_of_eq_None_iff)
    with None show ?thesis using unc[of w] oc by (simp add: Convert_def)
  next
    case (Some v)
    with assms have v: "v = OtherValue"
      by (cases v) (auto simp: on_cold_path_def no_session_image_def)
    show ?thesis using Some v unc[of "w\<lparr>globalPlacedImages := AList.delete (DisplayUnit.ID unit) (globalPlacedImages w)\<rparr>"] oc
      by (simp add: Convert_def)
  qed
qed


lemma Convert_download_failure:
  assumes "Load unit = Inl err \<or>
           (\<exists>body ct. Load unit = Inr (body, ct) \<and> convertImageBytes im d body unit ct = Inl err)"
  shows "Convert_download lib im d now unit n w0 =
           ((KittyDisplayUnit_zero, Some err), w0\<lparr>loadCalls := loadCalls w0 + 1\<rparr>)"
  using assms by (auto simp: Convert_download_def Let_def)

lemma Convert_download_success:
  assumes "Load unit = Inr (body, ct)" and "convertImageBytes im d body unit ct = Inr dec"
  shows "Convert_download lib im d now unit n w0 =
           ((KittyDisplayUnit_zero\<lparr>ReplacementText := SixelData dec\<rparr>, None),
            w0\<lparr>loadCalls := loadCalls w0 + 1,
               globalPlacedImages := AList.update (DisplayUnit.ID unit)
                  (DecodedImageV (dec\<lparr>DecodedImage.ID := n, lastUsed := now\<rparr>)) (globalPlacedImages w0),
               fs := snd (cacheDecodedImage lib (fs w0) (dec\<lparr>DecodedImage.ID := n, lastUsed := now\<rparr>) unit)\<rparr>)"
  using assms by (simp add: Convert_download_def Let_def split: prod.splits)

text \<open>
  C8. If a call of \<^verbatim>\<open>Convert\<close> reaches the cold path and the loader fails, or the image it
  yields does not convert, then \<^verbatim>\<open>Convert\<close> returns that error with the zero-valued
  payload, the session cache has no entry for the ID afterwards (and is otherwise as
  before), and the files of the persistent cache are as before: neither a metadata file
  nor a payload file is written.
\<close>

theorem Convert_failure_stores_nothing:
  assumes "on_cold_path lib unit w"
      and "Load unit = Inl err \<or>
           (\<exists>body ct. Load unit = Inr (body, ct) \<and> convertImageBytes im d body unit ct = Inl err)"
  shows "fst (Convert lib im d now unit w) = (KittyDisplayUnit_zero, Some err) \<and>
         map_of (globalPlacedImages (snd (Convert lib im d now unit w))) =
           (map_of (globalPlacedImages w))(DisplayUnit.ID unit := None) \<and>
         files (fs (snd (Convert lib im d now unit w))) = files (fs w)"
  using Convert_cold[OF assms(1), of im d now]
    Convert_download_failure[OF assms(2), of lib now "globalImagePlacementIDCounter w + 1"]
  by (simp add: openCached_files delete_conv')

lemma Convert_session_hit:
  assumes "map_of (globalPlacedImages w) (DisplayUnit.ID unit) = Some (DecodedImageV c)"
  shows "Convert lib im d now unit w =
           ((KittyDisplayUnit_zero\<lparr>ReplacementText := SixelData c\<rparr>, None),
            w\<lparr>globalPlacedImages := AList.update (DisplayUnit.ID unit)
                 (DecodedImageV (c\<lparr>lastUsed := now\<rparr>)) (globalPlacedImages w)\<rparr>)"
  using assms by (simp add: Convert_def Let_def)

lemma Convert_download_entry:
  assumes "Convert_download lib im d now unit n w0 = ((p, None), w')"
  shows "PrepareCommand p = [] \<and>
         (\<exists>c. map_of (globalPlacedImages w') (DisplayUnit.ID unit) = Some (DecodedImageV c) \<and>
              ReplacementText p = SixelData c)"
proof (cases "Load unit")
  case (Inl err)
  with assms show ?thesis by (simp add: Convert_download_def Let_def)
next
  case (Inr bc)
  obtain body ct where bc: "bc = (body, ct)" by (cases bc)
  show ?thesis
  proof (cases "convertImageBytes im d body unit ct")
    case (Inl err)
    with assms Inr bc show ?thesis by (simp add: Convert_download_def Let_def)
  next
    case (Inr dec)
    have "Load unit = Inr (body, ct)" using \<open>Load unit = Inr bc\<close> bc by simp
    from Convert_download_success[OF this Inr, of lib now n w0] assms
    show ?thesis by (auto simp: KittyDisplayUnit_zero_def update_conv')
  qed
qed

lemma Convert_uncached_entry:
  assumes "Convert_uncached lib im d now unit w0 = ((p, None), w')"
  shows "PrepareCommand p = [] \<and>
         (\<exists>c. map_of (globalPlacedImages w') (DisplayUnit.ID unit) = Some (DecodedImageV c) \<and>
              ReplacementText p = SixelData c)"
proof -
  obtain c0 fnd e f' where oc: "openCached lib (fs w0) unit = ((c0, fnd, e), f')"
    by (metis prod_cases3 surj_pair)
  show ?thesis
  proof (cases fnd)
    case True
    with assms oc show ?thesis
      by (auto simp: Convert_uncached_def Let_def KittyDisplayUnit_zero_def update_conv')
  next
    case False
    with assms oc show ?thesis
      using Convert_download_entry[of lib im d now unit "globalImagePlacementIDCounter w0 + 1" _ p w']
      by (simp add: Convert_uncached_def Let_def)
  qed
qed

lemma Convert_entry:
  assumes "Convert lib im d now unit w = ((p, None), w')"
  shows "PrepareCommand p = [] \<and>
         (\<exists>c. map_of (globalPlacedImages w') (DisplayUnit.ID unit) = Some (DecodedImageV c) \<and>
              ReplacementText p = SixelData c)"
proof (cases "map_of (globalPlacedImages w) (DisplayUnit.ID unit)")
  case None
  with assms show ?thesis using Convert_uncached_entry[of lib im d now unit w p w']
    by (simp add: Convert_def)
next
  case (Some v)
  show ?thesis
  proof (cases v)
    case (DecodedImageV c)
    with Some assms Convert_session_hit[of w unit c lib im d now] show ?thesis
      by (auto simp: KittyDisplayUnit_zero_def update_conv')
  next
    case OtherValue
    with Some assms show ?thesis
      using Convert_uncached_entry[of lib im d now unit _ p w']
      by (simp add: Convert_def)
  qed
qed

text \<open>
  C7. Whenever \<^verbatim>\<open>Convert\<close> succeeds, by a session-cache hit, a persistent-cache hit or the
  cold path, the payload is self-contained: \<^verbatim>\<open>PrepareCommand\<close> is empty and
  \<^verbatim>\<open>ReplacementText\<close> is the whole sixel sequence, the \<^verbatim>\<open>SixelData\<close> of the image that the
  session cache now holds for the ID.
\<close>

theorem Convert_payload_self_contained:
  assumes "snd (fst (Convert lib im d now unit w)) = None"
  shows "PrepareCommand (fst (fst (Convert lib im d now unit w))) = [] \<and>
         (\<exists>c. map_of (globalPlacedImages (snd (Convert lib im d now unit w))) (DisplayUnit.ID unit) =
                Some (DecodedImageV c) \<and>
              ReplacementText (fst (fst (Convert lib im d now unit w))) = SixelData c)"
proof -
  have "Convert lib im d now unit w =
      ((fst (fst (Convert lib im d now unit w)), None), snd (Convert lib im d now unit w))"
    using assms by (simp add: prod_eq_iff)
  from Convert_entry[OF this] show ?thesis .
qed

lemma Convert_download_loadCalls:
  "loadCalls (snd (Convert_download lib im d now unit n w0)) = loadCalls w0 + 1"
  by (simp add: Convert_download_def Let_def split: sum.splits prod.splits)

lemma Convert_uncached_loadCalls:
  "loadCalls (snd (Convert_uncached lib im d now unit w0)) \<le> loadCalls w0 + 1"
  by (simp add: Convert_uncached_def Let_def Convert_download_loadCalls split: prod.splits)

lemma Convert_loadCalls:
  "loadCalls (snd (Convert lib im d now unit w)) \<le> loadCalls w + 1"
  using Convert_uncached_loadCalls[of lib im d now unit w]
    Convert_uncached_loadCalls[of lib im d now unit
      "w\<lparr>globalPlacedImages := AList.delete (DisplayUnit.ID unit) (globalPlacedImages w)\<rparr>"]
  by (simp add: Convert_def Let_def split: option.splits any_value.splits)

text \<open>
  C1, amended. If a call of \<^verbatim>\<open>Convert\<close> succeeds, a second call with the same ID is answered
  from the session cache: it returns the same payload and no error, it does not invoke
  the loader, and it touches neither the file system nor the counter. The first call
  invokes the loader at most once, so both calls together invoke it at most once.
\<close>

theorem Convert_second_call_from_session_cache:
  assumes "Convert lib im d now1 unit1 w = ((p1, None), w1)"
      and "DisplayUnit.ID unit2 = DisplayUnit.ID unit1"
  shows "fst (Convert lib im d now2 unit2 w1) = (p1, None) \<and>
         loadCalls (snd (Convert lib im d now2 unit2 w1)) = loadCalls w1 \<and>
         loadCalls w1 \<le> loadCalls w + 1 \<and>
         fs (snd (Convert lib im d now2 unit2 w1)) = fs w1 \<and>
         globalImagePlacementIDCounter (snd (Convert lib im d now2 unit2 w1)) =
           globalImagePlacementIDCounter w1"
proof -
  from Convert_entry[OF assms(1)] obtain c where
    pc: "PrepareCommand p1 = []" and
    c: "map_of (globalPlacedImages w1) (DisplayUnit.ID unit1) = Some (DecodedImageV c)" and
    rt: "ReplacementText p1 = SixelData c" by blast
  have p1: "p1 = KittyDisplayUnit_zero\<lparr>ReplacementText := SixelData c\<rparr>"
    using pc rt by (cases p1) (simp add: KittyDisplayUnit_zero_def)
  have "loadCalls w1 \<le> loadCalls w + 1"
    using Convert_loadCalls[of lib im d now1 unit1 w] assms(1) by simp
  then show ?thesis
    using Convert_session_hit[of w1 unit2 c lib im d now2] c assms(2) p1 by simp
qed

section \<open>The persistent cache: writing an image and reading it back\<close>

lemma createGetCacheDirectory_usable:
  assumes "cache_files_usable lib f unit"
  shows "\<exists>D. createGetCacheDirectory lib f (Directory unit) = ((cacheDir lib unit, None), f\<lparr>dirs := D\<rparr>)"
proof (cases "MkdirAll_fault f (cacheDir lib unit)")
  case None
  then show ?thesis
    by (auto simp: createGetCacheDirectory_def MkdirAll_def Let_def cacheDir_def)
next
  case (Some e)
  with assms have "errors_Is e ErrExist"
    by (simp add: cache_files_usable_def Let_def)
  with Some have "createGetCacheDirectory lib f (Directory unit) = ((cacheDir lib unit, None), f)"
    by (simp add: createGetCacheDirectory_def MkdirAll_def Let_def cacheDir_def)
  moreover have "f = f\<lparr>dirs := dirs f\<rparr>" by simp
  ultimately show ?thesis by metis
qed

lemma cache_files_usable_dirs:
  "cache_files_usable lib (f\<lparr>dirs := D\<rparr>) unit = cache_files_usable lib f unit"
  by (simp add: cache_files_usable_def)

lemma cacheDecodedImage_written:
  assumes u: "cache_files_usable lib f unit" and c: "codecs_roundtrip lib unit dec"
  shows "\<exists>D z. zlib_compress lib (SixelData dec) = Inr z \<and>
      cacheDecodedImage lib f dec unit =
        (None, f\<lparr>dirs := D,
                 files := (files f)
                   (compressedPath lib (cacheDir lib unit) unit \<mapsto> z,
                    metaImageFilePath lib (cacheDir lib unit) unit \<mapsto>
                      json_Marshal lib \<lparr>meta_Cols = Cols dec,
                        EncodedPath = compressedPath lib (cacheDir lib unit) unit\<rparr> @ [CHR 0x0A])\<rparr>)"
proof -
  from createGetCacheDirectory_usable[OF u] obtain D where
    d: "createGetCacheDirectory lib f (Directory unit) = ((cacheDir lib unit, None), f\<lparr>dirs := D\<rparr>)"
    by blast
  from c obtain z where z: "zlib_compress lib (SixelData dec) = Inr z"
    by (auto simp: codecs_roundtrip_def Let_def split: sum.splits)
  let ?mp = "metaImageFilePath lib (cacheDir lib unit) unit"
  let ?cp = "compressedPath lib (cacheDir lib unit) unit"
  from u have faults: "Create_fault f ?mp = None" "Create_fault f ?cp = None"
      "Write_fault f ?mp = None" "Write_fault f ?cp = None" "?mp \<noteq> ?cp"
    by (simp_all add: cache_files_usable_def Let_def)
  have "cacheDecodedImage lib f dec unit =
        (None, f\<lparr>dirs := D,
                 files := (files f)
                   (?cp \<mapsto> z,
                    ?mp \<mapsto> json_Marshal lib \<lparr>meta_Cols = Cols dec, EncodedPath = ?cp\<rparr> @ [CHR 0x0A])\<rparr>)"
    using d z faults
    by (simp add: cacheDecodedImage_def Create_def Write_def Let_def fun_upd_twist)
  with z show ?thesis by blast
qed

lemma cacheDecodedImage_then_openCached:
  assumes u: "cache_files_usable lib f unit" and c: "codecs_roundtrip lib unit dec"
  shows "fst (cacheDecodedImage lib f dec unit) = None \<and>
         fst (openCached lib (snd (cacheDecodedImage lib f dec unit)) unit) =
           (DecodedImage_zero\<lparr>Cols := Cols dec, SixelData := SixelData dec\<rparr>, True, None)"
proof -
  let ?mp = "metaImageFilePath lib (cacheDir lib unit) unit"
  let ?cp = "compressedPath lib (cacheDir lib unit) unit"
  let ?m = "\<lparr>meta_Cols = Cols dec, EncodedPath = ?cp\<rparr>"
  from cacheDecodedImage_written[OF u c] obtain D z where
    z: "zlib_compress lib (SixelData dec) = Inr z" and
    w: "cacheDecodedImage lib f dec unit =
        (None, f\<lparr>dirs := D, files := (files f)(?cp \<mapsto> z, ?mp \<mapsto> json_Marshal lib ?m @ [CHR 0x0A])\<rparr>)"
    by blast
  let ?f' = "f\<lparr>dirs := D, files := (files f)(?cp \<mapsto> z, ?mp \<mapsto> json_Marshal lib ?m @ [CHR 0x0A])\<rparr>"
  have u': "cache_files_usable lib ?f' unit"
    using u by (simp add: cache_files_usable_def)
  from createGetCacheDirectory_usable[OF u'] obtain D' where
    d: "createGetCacheDirectory lib ?f' (Directory unit) = ((cacheDir lib unit, None), ?f'\<lparr>dirs := D'\<rparr>)"
    by blast
  from u have faults: "ReadFile_fault f ?mp = None" "ReadFile_fault f ?cp = None" "?mp \<noteq> ?cp"
    by (simp_all add: cache_files_usable_def Let_def)
  from c z have dz: "zlib_decompress lib z = Inr (SixelData dec)"
    and js: "json_Unmarshal lib (json_Marshal lib ?m @ [CHR 0x0A]) = Inr ?m"
    by (simp_all add: codecs_roundtrip_def Let_def)
  have "fst (openCached lib ?f' unit) =
      (DecodedImage_zero\<lparr>Cols := Cols dec, SixelData := SixelData dec\<rparr>, True, None)"
    using d faults dz js by (simp add: openCached_def ReadFile_def)
  with w show ?thesis by simp
qed


lemma codecs_roundtrip_ID_lastUsed:
  "codecs_roundtrip lib unit (dec\<lparr>DecodedImage.ID := n, lastUsed := t\<rparr>) = codecs_roundtrip lib unit dec"
  by (simp add: codecs_roundtrip_def split: sum.splits)

lemma Convert_persistent_hit:
  assumes "map_of (globalPlacedImages w) (DisplayUnit.ID unit) = None"
      and "fst (openCached lib (fs w) unit) = (c, True, e)"
  shows "fst (Convert lib im d now unit w) =
           (KittyDisplayUnit_zero\<lparr>ReplacementText := SixelData c\<rparr>, None) \<and>
         loadCalls (snd (Convert lib im d now unit w)) = loadCalls w \<and>
         map_of (globalPlacedImages (snd (Convert lib im d now unit w))) (DisplayUnit.ID unit) =
           Some (DecodedImageV (c\<lparr>DecodedImage.ID := globalImagePlacementIDCounter w + 1, lastUsed := now\<rparr>))"
proof -
  obtain f' where "openCached lib (fs w) unit = ((c, True, e), f')"
    using assms(2) by (cases "openCached lib (fs w) unit") simp
  with assms(1) show ?thesis
    by (simp add: Convert_def Convert_uncached_def Let_def update_conv')
qed

text \<open>
  C2, amended. Let a call of \<^verbatim>\<open>Convert\<close> reach the cold path, the loader yield an image and
  the image convert; let the file system allow the unit's two cache files to be written
  and read, and zlib and JSON give back what they were given. Then the call succeeds, and
  after the entry is removed from the session cache a second call with the same unit
  returns the same payload and no error without invoking the loader, and the image it
  puts into the session cache has the column count and the payload of the first
  conversion.
\<close>

theorem Convert_persistent_roundtrip:
  assumes cold: "on_cold_path lib unit w"
      and load: "Load unit = Inr (body, ct)"
      and conv: "convertImageBytes im d body unit ct = Inr dec"
      and usable: "cache_files_usable lib (fs w) unit"
      and codecs: "codecs_roundtrip lib unit dec"
      and first: "Convert lib im d now1 unit w = (r1, w1)"
  shows "r1 = (KittyDisplayUnit_zero\<lparr>ReplacementText := SixelData dec\<rparr>, None) \<and>
         map_of (globalPlacedImages w1) (DisplayUnit.ID unit) =
           Some (DecodedImageV (dec\<lparr>DecodedImage.ID := globalImagePlacementIDCounter w + 1, lastUsed := now1\<rparr>)) \<and>
         fst (Convert lib im d now2 unit (evict (DisplayUnit.ID unit) w1)) = r1 \<and>
         loadCalls (snd (Convert lib im d now2 unit (evict (DisplayUnit.ID unit) w1))) = loadCalls w1 \<and>
         map_of (globalPlacedImages (snd (Convert lib im d now2 unit (evict (DisplayUnit.ID unit) w1))))
             (DisplayUnit.ID unit) =
           Some (DecodedImageV \<lparr>DecodedImage.ID = globalImagePlacementIDCounter w + 2,
                   Cols = Cols dec, SixelData = SixelData dec, lastUsed = now2\<rparr>)"
proof -
  let ?n = "globalImagePlacementIDCounter w + 1"
  let ?dec = "dec\<lparr>DecodedImage.ID := ?n, lastUsed := now1\<rparr>"
  let ?f1 = "snd (openCached lib (fs w) unit)"
  let ?w0 = "w\<lparr>globalPlacedImages := AList.delete (DisplayUnit.ID unit) (globalPlacedImages w),
          globalImagePlacementIDCounter := ?n, fs := ?f1\<rparr>"
  have c1: "Convert lib im d now1 unit w = Convert_download lib im d now1 unit ?n ?w0"
    using Convert_cold[OF cold] .
  note dl = Convert_download_success[OF load conv, of lib now1 ?n ?w0]
  from first c1 dl have r1: "r1 = (KittyDisplayUnit_zero\<lparr>ReplacementText := SixelData dec\<rparr>, None)"
    and w1: "w1 = ?w0\<lparr>loadCalls := loadCalls ?w0 + 1,
               globalPlacedImages := AList.update (DisplayUnit.ID unit) (DecodedImageV ?dec) (globalPlacedImages ?w0),
               fs := snd (cacheDecodedImage lib (fs ?w0) ?dec unit)\<rparr>"
    by simp_all
  obtain D where f1: "?f1 = (fs w)\<lparr>dirs := D\<rparr>"
    using openCached_dirs_only[of lib "fs w" unit] by blast
  have u1: "cache_files_usable lib ?f1 unit"
    using usable by (simp add: f1 cache_files_usable_dirs)
  have rt: "fst (openCached lib (snd (cacheDecodedImage lib ?f1 ?dec unit)) unit) =
           (DecodedImage_zero\<lparr>Cols := Cols dec, SixelData := SixelData dec\<rparr>, True, None)"
    using cacheDecodedImage_then_openCached[OF u1, of ?dec] codecs
    by (simp add: codecs_roundtrip_ID_lastUsed)
  let ?w2 = "evict (DisplayUnit.ID unit) w1"
  have m2: "map_of (globalPlacedImages ?w2) (DisplayUnit.ID unit) = None"
    by (simp add: evict_def delete_conv')
  have o2: "fst (openCached lib (fs ?w2) unit) =
           (DecodedImage_zero\<lparr>Cols := Cols dec, SixelData := SixelData dec\<rparr>, True, None)"
    using rt by (simp add: evict_def w1)
  have n2: "globalImagePlacementIDCounter ?w2 + 1 = globalImagePlacementIDCounter w + 2"
    by (simp add: evict_def w1)
  have l2: "loadCalls ?w2 = loadCalls w1" by (simp add: evict_def)
  have e1: "map_of (globalPlacedImages w1) (DisplayUnit.ID unit) = Some (DecodedImageV ?dec)"
    by (simp add: w1 update_conv')
  show ?thesis
    using Convert_persistent_hit[OF m2 o2, of im d now2] r1 e1 n2 l2
    by (simp add: DecodedImage_zero_def)
qed


lemma cache_files_usable_writable:
  "cache_files_usable lib f unit \<Longrightarrow> cache_files_writable lib f unit"
  by (simp add: cache_files_usable_def cache_files_writable_def Let_def)

lemma cache_files_writable_dirs:
  "cache_files_writable lib (f\<lparr>dirs := D\<rparr>) unit = cache_files_writable lib f unit"
  by (simp add: cache_files_writable_def)

lemma createGetCacheDirectory_writable:
  assumes "cache_files_writable lib f unit"
  shows "\<exists>D. createGetCacheDirectory lib f (Directory unit) = ((cacheDir lib unit, None), f\<lparr>dirs := D\<rparr>)"
proof (cases "MkdirAll_fault f (cacheDir lib unit)")
  case None
  then show ?thesis
    by (auto simp: createGetCacheDirectory_def MkdirAll_def Let_def cacheDir_def)
next
  case (Some e)
  with assms have "errors_Is e ErrExist"
    by (simp add: cache_files_writable_def Let_def)
  with Some have "createGetCacheDirectory lib f (Directory unit) = ((cacheDir lib unit, None), f)"
    by (simp add: createGetCacheDirectory_def MkdirAll_def Let_def cacheDir_def)
  moreover have "f = f\<lparr>dirs := dirs f\<rparr>" by simp
  ultimately show ?thesis by metis
qed

lemma cacheDecodedImage_files:
  assumes u: "cache_files_writable lib f unit" and z: "zlib_compress lib (SixelData dec) = Inr z"
  shows "fst (cacheDecodedImage lib f dec unit) = None \<and>
         files (snd (cacheDecodedImage lib f dec unit)) =
           (files f)
             (compressedPath lib (cacheDir lib unit) unit \<mapsto> z,
              metaImageFilePath lib (cacheDir lib unit) unit \<mapsto>
                json_Marshal lib \<lparr>meta_Cols = Cols dec,
                  EncodedPath = compressedPath lib (cacheDir lib unit) unit\<rparr> @ [CHR 0x0A])"
proof -
  from createGetCacheDirectory_writable[OF u] obtain D where
    d: "createGetCacheDirectory lib f (Directory unit) = ((cacheDir lib unit, None), f\<lparr>dirs := D\<rparr>)"
    by blast
  let ?mp = "metaImageFilePath lib (cacheDir lib unit) unit"
  let ?cp = "compressedPath lib (cacheDir lib unit) unit"
  from u have faults: "Create_fault f ?mp = None" "Create_fault f ?cp = None"
      "Write_fault f ?mp = None" "Write_fault f ?cp = None" "?mp \<noteq> ?cp"
    by (simp_all add: cache_files_writable_def Let_def)
  show ?thesis
    using d z faults
    by (simp add: cacheDecodedImage_def Create_def Write_def Let_def fun_upd_twist)
qed

text \<open>
  C9. If \<^verbatim>\<open>openCached\<close> returns an error, the image counts as not found and \<^verbatim>\<open>Convert\<close> goes
  on to the cold path: the loader is invoked, the error of \<^verbatim>\<open>Convert\<close> is the loader's or
  the conversion's error and none if both succeed (the error of \<^verbatim>\<open>openCached\<close> is not
  returned), and on success the image is returned, stored in the session cache and
  written to the persistent cache again: where the file system lets the entry be
  written, the payload file then holds the compressed sixel data and the metadata file
  the JSON text of the column count and the payload path, and where the entry can also
  be read and the libraries give back what they were given, \<^verbatim>\<open>openCached\<close> now finds the
  image.
\<close>

theorem Convert_unreadable_cache_entry:
  assumes "no_session_image w unit"
      and "snd (snd (fst (openCached lib (fs w) unit))) = Some e"
  shows "\<not> fst (snd (fst (openCached lib (fs w) unit))) \<and>
         loadCalls (snd (Convert lib im d now unit w)) = loadCalls w + 1 \<and>
         snd (fst (Convert lib im d now unit w)) =
           (case Load unit of
              Inl err \<Rightarrow> Some err
            | Inr (body, ct) \<Rightarrow>
               (case convertImageBytes im d body unit ct of Inl err \<Rightarrow> Some err | Inr dec \<Rightarrow> None)) \<and>
         (\<forall>body ct dec. Load unit = Inr (body, ct) \<and> convertImageBytes im d body unit ct = Inr dec \<longrightarrow>
            fst (Convert lib im d now unit w) =
              (KittyDisplayUnit_zero\<lparr>ReplacementText := SixelData dec\<rparr>, None) \<and>
            map_of (globalPlacedImages (snd (Convert lib im d now unit w))) (DisplayUnit.ID unit) =
              Some (DecodedImageV (dec\<lparr>DecodedImage.ID := globalImagePlacementIDCounter w + 1, lastUsed := now\<rparr>)) \<and>
            fs (snd (Convert lib im d now unit w)) =
              snd (cacheDecodedImage lib (snd (openCached lib (fs w) unit))
                     (dec\<lparr>DecodedImage.ID := globalImagePlacementIDCounter w + 1, lastUsed := now\<rparr>) unit)) \<and>
         (\<forall>body ct dec z. Load unit = Inr (body, ct) \<and> convertImageBytes im d body unit ct = Inr dec \<and>
            cache_files_writable lib (fs w) unit \<and> zlib_compress lib (SixelData dec) = Inr z \<longrightarrow>
            files (fs (snd (Convert lib im d now unit w))) =
              (files (fs w))
                (compressedPath lib (cacheDir lib unit) unit \<mapsto> z,
                 metaImageFilePath lib (cacheDir lib unit) unit \<mapsto>
                   json_Marshal lib \<lparr>meta_Cols = Cols dec,
                     EncodedPath = compressedPath lib (cacheDir lib unit) unit\<rparr> @ [CHR 0x0A])) \<and>
         (\<forall>body ct dec. Load unit = Inr (body, ct) \<and> convertImageBytes im d body unit ct = Inr dec \<and>
            cache_files_usable lib (fs w) unit \<and> codecs_roundtrip lib unit dec \<longrightarrow>
            fst (openCached lib (fs (snd (Convert lib im d now unit w))) unit) =
              (DecodedImage_zero\<lparr>Cols := Cols dec, SixelData := SixelData dec\<rparr>, True, None))"
proof -
  let ?n = "globalImagePlacementIDCounter w + 1"
  let ?f1 = "snd (openCached lib (fs w) unit)"
  have nf: "\<not> fst (snd (fst (openCached lib (fs w) unit)))"
    using openCached_error_not_found[OF assms(2)] .
  with assms(1) have cold: "on_cold_path lib unit w" by (simp add: on_cold_path_def)
  note conv = Convert_cold[OF cold, of im d now]
  obtain D where f1: "?f1 = (fs w)\<lparr>dirs := D\<rparr>"
    using openCached_dirs_only[of lib "fs w" unit] by blast
  have err: "snd (fst (Convert lib im d now unit w)) =
           (case Load unit of
              Inl err \<Rightarrow> Some err
            | Inr (body, ct) \<Rightarrow>
               (case convertImageBytes im d body unit ct of Inl err \<Rightarrow> Some err | Inr dec \<Rightarrow> None))"
    and calls: "loadCalls (snd (Convert lib im d now unit w)) = loadCalls w + 1"
  proof -
    show "loadCalls (snd (Convert lib im d now unit w)) = loadCalls w + 1"
      using conv by (simp add: Convert_download_loadCalls)
    show "snd (fst (Convert lib im d now unit w)) =
           (case Load unit of
              Inl err \<Rightarrow> Some err
            | Inr (body, ct) \<Rightarrow>
               (case convertImageBytes im d body unit ct of Inl err \<Rightarrow> Some err | Inr dec \<Rightarrow> None))"
      using conv by (simp add: Convert_download_def Let_def split: sum.splits prod.splits)
  qed
  have succ: "fst (Convert lib im d now unit w) =
              (KittyDisplayUnit_zero\<lparr>ReplacementText := SixelData dec\<rparr>, None) \<and>
            map_of (globalPlacedImages (snd (Convert lib im d now unit w))) (DisplayUnit.ID unit) =
              Some (DecodedImageV (dec\<lparr>DecodedImage.ID := ?n, lastUsed := now\<rparr>)) \<and>
            fs (snd (Convert lib im d now unit w)) =
              snd (cacheDecodedImage lib ?f1 (dec\<lparr>DecodedImage.ID := ?n, lastUsed := now\<rparr>) unit)"
    if "Load unit = Inr (body, ct)" "convertImageBytes im d body unit ct = Inr dec" for body ct dec
    using conv Convert_download_success[OF that, of lib now ?n] by (simp add: update_conv')
  have written: "files (fs (snd (Convert lib im d now unit w))) =
              (files (fs w))
                (compressedPath lib (cacheDir lib unit) unit \<mapsto> z,
                 metaImageFilePath lib (cacheDir lib unit) unit \<mapsto>
                   json_Marshal lib \<lparr>meta_Cols = Cols dec,
                     EncodedPath = compressedPath lib (cacheDir lib unit) unit\<rparr> @ [CHR 0x0A])"
    if "Load unit = Inr (body, ct)" "convertImageBytes im d body unit ct = Inr dec"
      "cache_files_writable lib (fs w) unit" "zlib_compress lib (SixelData dec) = Inr z"
    for body ct dec z
  proof -
    have u1: "cache_files_writable lib ?f1 unit"
      using that(3) by (simp add: f1 cache_files_writable_dirs)
    have "zlib_compress lib (SixelData (dec\<lparr>DecodedImage.ID := ?n, lastUsed := now\<rparr>)) = Inr z"
      using that(4) by simp
    from cacheDecodedImage_files[OF u1 this] succ[OF that(1,2)] show ?thesis
      by (simp add: f1)
  qed
  have readable: "fst (openCached lib (fs (snd (Convert lib im d now unit w))) unit) =
              (DecodedImage_zero\<lparr>Cols := Cols dec, SixelData := SixelData dec\<rparr>, True, None)"
    if "Load unit = Inr (body, ct)" "convertImageBytes im d body unit ct = Inr dec"
      "cache_files_usable lib (fs w) unit" "codecs_roundtrip lib unit dec"
    for body ct dec
  proof -
    have u1: "cache_files_usable lib ?f1 unit"
      using that(3) by (simp add: f1 cache_files_usable_dirs)
    have c1: "codecs_roundtrip lib unit (dec\<lparr>DecodedImage.ID := ?n, lastUsed := now\<rparr>)"
      using that(4) by (simp add: codecs_roundtrip_ID_lastUsed)
    from cacheDecodedImage_then_openCached[OF u1 c1] succ[OF that(1,2)] show ?thesis
      by simp
  qed
  show ?thesis
    using nf calls err succ written readable by blast
qed

section \<open>Errors on the cold path\<close>

lemma convertSingleImage_encoded:
  "convertSingleImage im d img unit = Inr dec \<Longrightarrow> \<exists>x. sixel_Encode im x = Inr (SixelData dec)"
  by (auto simp: convertSingleImage_def imageToSixel_def Let_def DecodedImage_zero_def split: sum.splits)

lemma convertImageBytes_encoded:
  "convertImageBytes im d r unit ct = Inr dec \<Longrightarrow> \<exists>x. sixel_Encode im x = Inr (SixelData dec)"
  by (auto simp: convertImageBytes_def Let_def split: sum.splits list.splits if_splits prod.splits
      dest: convertSingleImage_encoded)

lemma convertImageBytes_decode_failure:
  "(ct = ''image/avif'' \<and> avif_DecodeAll im r = Inl e \<longrightarrow>
      convertImageBytes im d r unit ct = Inl (Wrapped ''failed to convert avif'' e)) \<and>
   (DisplayUnit.IsAnimated unit \<and> ct = ''image/webp'' \<and> awebp_DecodeAll im r = Inl e \<longrightarrow>
      convertImageBytes im d r unit ct = Inl (Wrapped ''failed to convert animated webp'' e)) \<and>
   (DisplayUnit.IsAnimated unit \<and> ct = ''image/gif'' \<and> gif_DecodeAll im r = Inl e \<longrightarrow>
      convertImageBytes im d r unit ct = Inl (Wrapped ''failed to convert animated gif'' e)) \<and>
   (ct \<noteq> ''image/avif'' \<and> \<not> (DisplayUnit.IsAnimated unit \<and> (ct = ''image/webp'' \<or> ct = ''image/gif'')) \<and>
    image_Decode im r = Inl (fmt, e) \<longrightarrow>
      convertImageBytes im d r unit ct = Inl (Wrapped (''failed to convert '' @ fmt) e))"
  by (auto simp: convertImageBytes_def)

lemma convertSingleImage_encoder:
  "convertSingleImage im d img unit =
     (case sixel_Encode im (encoder_input im d img unit) of
        Inl e \<Rightarrow> Inl (Wrapped ''failed to encode sixel'' e)
      | Inr sixelData \<Rightarrow>
          Inr (DecodedImage_zero\<lparr>
                 Cols := colsOf im (scaledWidth im (cellHeight d)
                           (Dx im (if 0 < RightPadding unit
                                   then addRightPadding im img (RightPadding unit) else img))
                           (Dy im img)) (cellWidth d),
                 SixelData := sixelData\<rparr>))"
  by (simp add: convertSingleImage_def imageToSixel_def encoder_input_def Let_def split: sum.splits)

lemma convertSingleImage_encode_failure:
  "sixel_Encode im (encoder_input im d img unit) = Inl e \<Longrightarrow>
   convertSingleImage im d img unit = Inl (Wrapped ''failed to encode sixel'' e)"
  by (simp add: convertSingleImage_encoder)

lemma convertImageBytes_no_frames:
  "(ct = ''image/avif'' \<and> avif_DecodeAll im r = Inr [] \<longrightarrow>
      convertImageBytes im d r unit ct = Inl (Errorf ''avif has no frames'')) \<and>
   (DisplayUnit.IsAnimated unit \<and> ct = ''image/webp'' \<and> awebp_DecodeAll im r = Inr [] \<longrightarrow>
      convertImageBytes im d r unit ct = Inl (Errorf ''webp has no frames'')) \<and>
   (DisplayUnit.IsAnimated unit \<and> ct = ''image/gif'' \<and> gif_DecodeAll im r = Inr ([], cw, ch) \<longrightarrow>
      convertImageBytes im d r unit ct = Inl (Errorf ''gif has no frames''))"
  by (auto simp: convertImageBytes_def)

lemma convertImageBytes_encode_failure:
  "(ct = ''image/avif'' \<and> avif_DecodeAll im r = Inr (frame # rest) \<and>
    sixel_Encode im (encoder_input im d frame unit) = Inl e \<longrightarrow>
      convertImageBytes im d r unit ct = Inl (Wrapped ''failed to encode sixel'' e)) \<and>
   (DisplayUnit.IsAnimated unit \<and> ct = ''image/webp'' \<and> awebp_DecodeAll im r = Inr (frame # rest) \<and>
    sixel_Encode im (encoder_input im d frame unit) = Inl e \<longrightarrow>
      convertImageBytes im d r unit ct = Inl (Wrapped ''failed to encode sixel'' e)) \<and>
   (DisplayUnit.IsAnimated unit \<and> ct = ''image/gif'' \<and> gif_DecodeAll im r = Inr (frame # rest, cw, ch) \<and>
    sixel_Encode im (encoder_input im d (gif_first_frame im frame cw ch) unit) = Inl e \<longrightarrow>
      convertImageBytes im d r unit ct = Inl (Wrapped ''failed to encode sixel'' e)) \<and>
   (ct \<noteq> ''image/avif'' \<and>
    \<not> (DisplayUnit.IsAnimated unit \<and> (ct = ''image/webp'' \<or> ct = ''image/gif'')) \<and>
    image_Decode im r = Inr img \<and>
    sixel_Encode im (encoder_input im d img unit) = Inl e \<longrightarrow>
      convertImageBytes im d r unit ct = Inl (Wrapped ''failed to encode sixel'' e))"
  by (auto simp: convertImageBytes_def gif_first_frame_def Let_def convertSingleImage_encode_failure)


text \<open>
  C3. On the cold path, when the loader has yielded an image: an error of the conversion
  is the error of \<^verbatim>\<open>Convert\<close>; if the conversion succeeds and writing the image to the
  persistent cache fails, \<^verbatim>\<open>Convert\<close> still returns the payload with no error and the
  session cache holds the image. The conversion returns an error whenever its decoder
  fails (AVIF, animated WEBP, animated GIF, and \<^verbatim>\<open>image.Decode\<close> for the rest), whenever
  the decoder of an animated format finds no frame, and whenever the sixel encoder fails
  on the image it is given (the first frame or the decoded image, padded and scaled); a
  conversion succeeds only with sixel data that the encoder returned without error.
\<close>

theorem Convert_cold_path_errors:
  assumes "on_cold_path lib unit w" and "Load unit = Inr (body, ct)"
  shows "(convertImageBytes im d body unit ct = Inl err \<longrightarrow>
            fst (Convert lib im d now unit w) = (KittyDisplayUnit_zero, Some err)) \<and>
         (convertImageBytes im d body unit ct = Inr dec \<and>
          fst (cacheDecodedImage lib (snd (openCached lib (fs w) unit))
                 (dec\<lparr>DecodedImage.ID := globalImagePlacementIDCounter w + 1, lastUsed := now\<rparr>) unit)
            = Some werr \<longrightarrow>
            fst (Convert lib im d now unit w) =
              (KittyDisplayUnit_zero\<lparr>ReplacementText := SixelData dec\<rparr>, None) \<and>
            map_of (globalPlacedImages (snd (Convert lib im d now unit w))) (DisplayUnit.ID unit) =
              Some (DecodedImageV (dec\<lparr>DecodedImage.ID := globalImagePlacementIDCounter w + 1,
                                        lastUsed := now\<rparr>))) \<and>
         (ct = ''image/avif'' \<and> avif_DecodeAll im body = Inl e \<longrightarrow>
            convertImageBytes im d body unit ct = Inl (Wrapped ''failed to convert avif'' e)) \<and>
         (DisplayUnit.IsAnimated unit \<and> ct = ''image/webp'' \<and> awebp_DecodeAll im body = Inl e \<longrightarrow>
            convertImageBytes im d body unit ct = Inl (Wrapped ''failed to convert animated webp'' e)) \<and>
         (DisplayUnit.IsAnimated unit \<and> ct = ''image/gif'' \<and> gif_DecodeAll im body = Inl e \<longrightarrow>
            convertImageBytes im d body unit ct = Inl (Wrapped ''failed to convert animated gif'' e)) \<and>
         (ct \<noteq> ''image/avif'' \<and>
          \<not> (DisplayUnit.IsAnimated unit \<and> (ct = ''image/webp'' \<or> ct = ''image/gif'')) \<and>
          image_Decode im body = Inl (fmt, e) \<longrightarrow>
            convertImageBytes im d body unit ct = Inl (Wrapped (''failed to convert '' @ fmt) e)) \<and>
         (convertImageBytes im d body unit ct = Inr dec \<longrightarrow>
            (\<exists>x. sixel_Encode im x = Inr (SixelData dec))) \<and>
         (ct = ''image/avif'' \<and> avif_DecodeAll im body = Inr [] \<longrightarrow>
            convertImageBytes im d body unit ct = Inl (Errorf ''avif has no frames'')) \<and>
         (DisplayUnit.IsAnimated unit \<and> ct = ''image/webp'' \<and> awebp_DecodeAll im body = Inr [] \<longrightarrow>
            convertImageBytes im d body unit ct = Inl (Errorf ''webp has no frames'')) \<and>
         (DisplayUnit.IsAnimated unit \<and> ct = ''image/gif'' \<and> gif_DecodeAll im body = Inr ([], cw, ch) \<longrightarrow>
            convertImageBytes im d body unit ct = Inl (Errorf ''gif has no frames'')) \<and>
         (ct = ''image/avif'' \<and> avif_DecodeAll im body = Inr (frame # rest) \<and>
          sixel_Encode im (encoder_input im d frame unit) = Inl e \<longrightarrow>
            convertImageBytes im d body unit ct = Inl (Wrapped ''failed to encode sixel'' e)) \<and>
         (DisplayUnit.IsAnimated unit \<and> ct = ''image/webp'' \<and>
          awebp_DecodeAll im body = Inr (frame # rest) \<and>
          sixel_Encode im (encoder_input im d frame unit) = Inl e \<longrightarrow>
            convertImageBytes im d body unit ct = Inl (Wrapped ''failed to encode sixel'' e)) \<and>
         (DisplayUnit.IsAnimated unit \<and> ct = ''image/gif'' \<and>
          gif_DecodeAll im body = Inr (frame # rest, cw, ch) \<and>
          sixel_Encode im (encoder_input im d (gif_first_frame im frame cw ch) unit) = Inl e \<longrightarrow>
            convertImageBytes im d body unit ct = Inl (Wrapped ''failed to encode sixel'' e)) \<and>
         (ct \<noteq> ''image/avif'' \<and>
          \<not> (DisplayUnit.IsAnimated unit \<and> (ct = ''image/webp'' \<or> ct = ''image/gif'')) \<and>
          image_Decode im body = Inr img \<and>
          sixel_Encode im (encoder_input im d img unit) = Inl e \<longrightarrow>
            convertImageBytes im d body unit ct = Inl (Wrapped ''failed to encode sixel'' e))"
proof -
  note conv = Convert_cold[OF assms(1), of im d now]
  have a: "convertImageBytes im d body unit ct = Inl err \<longrightarrow>
            fst (Convert lib im d now unit w) = (KittyDisplayUnit_zero, Some err)"
    using conv assms(2)
      Convert_download_failure[of unit err im d lib now "globalImagePlacementIDCounter w + 1"]
    by auto
  have b: "convertImageBytes im d body unit ct = Inr dec \<longrightarrow>
            fst (Convert lib im d now unit w) =
              (KittyDisplayUnit_zero\<lparr>ReplacementText := SixelData dec\<rparr>, None) \<and>
            map_of (globalPlacedImages (snd (Convert lib im d now unit w))) (DisplayUnit.ID unit) =
              Some (DecodedImageV (dec\<lparr>DecodedImage.ID := globalImagePlacementIDCounter w + 1,
                                        lastUsed := now\<rparr>))"
    using conv Convert_download_success[OF assms(2), of im d dec lib now "globalImagePlacementIDCounter w + 1"]
    by (auto simp: update_conv')
  have c: "convertImageBytes im d body unit ct = Inr dec \<longrightarrow>
            (\<exists>x. sixel_Encode im x = Inr (SixelData dec))"
    using convertImageBytes_encoded[of im d body unit ct dec] by blast
  note f = convertImageBytes_decode_failure[of ct im body e d unit fmt]
  note n = convertImageBytes_no_frames[of ct im body d unit cw ch]
  note g = convertImageBytes_encode_failure[of ct im body frame rest d unit e cw ch img]
  show ?thesis
    apply (intro conjI)
                 apply (rule a)
                apply (use b in blast)
               apply (use f in blast)
              apply (use f in blast)
             apply (use f in blast)
            apply (use f in blast)
           apply (rule c)
          apply (use n in blast)
         apply (use n in blast)
        apply (use n in blast)
       apply (use g in blast)
      apply (use g in blast)
     apply (use g in blast)
    apply (use g in blast)
    done
qed

section \<open>Convert on concrete inputs\<close>

lemmas sample_defs = sample_Convert_def sample_storage_def sample_Join_def sample_Clean_def
  zlib_header_def sample_compress_def sample_decompress_def sample_Marshal_def sample_Unmarshal_def
  sample_decode_def sample_sixel_def sample_imaging_def sample_manager_def unit_ok_def
  unit_unreachable_def unit_garbage_def empty_fs_def readonly_fs_def corrupt_fs_def world_with_def
  sixel_ok_def show_int_def show_nat.simps is_digit_def digit_val_def

lemmas Convert_defs = Convert_def Convert_uncached_def Convert_download_def openCached_def
  cacheDecodedImage_def createGetCacheDirectory_def metaImageFilePath_def compressedPath_def
  MkdirAll_def Create_def Write_def ReadFile_def convertImageBytes_def convertSingleImage_def
  imageToSixel_def addRightPadding_def KittyDisplayUnit_zero_def DecodedImage_zero_def
  no_session_image_def on_cold_path_def evict_def Let_def

lemma Convert_unit_ok_first:
  "fst (sample_Convert 1000 unit_ok (world_with empty_fs)) =
     (\<lparr>PrepareCommand = [], ReplacementText = sixel_ok\<rparr>, None)"
  by (simp add: sample_defs Convert_defs)

lemma loadCalls_unit_ok_first:
  "loadCalls (snd (sample_Convert 1000 unit_ok (world_with empty_fs))) = 1"
  by (simp add: sample_defs Convert_defs)

lemma Load_unit_ok: "Load unit_ok = Inr ([CHR 28, CHR 28], ''image/png'')"
  by (simp add: unit_ok_def)

lemma convertImageBytes_unit_ok:
  "convertImageBytes sample_imaging sample_manager [CHR 28, CHR 28] unit_ok ''image/png'' =
     Inr \<lparr>DecodedImage.ID = 0, Cols = 2, SixelData = sixel_ok, lastUsed = 0\<rparr>"
  by (simp add: sample_defs Convert_defs)

lemma convertImageBytes_unit_garbage:
  "convertImageBytes sample_imaging sample_manager ''<html>not found</html>'' unit_garbage ''image/png'' =
     Inl (Wrapped ''failed to convert '' (LibError ''image: unknown format''))"
  by (simp add: sample_defs Convert_defs)

lemma on_cold_path_unit_ok: "on_cold_path sample_storage unit_ok (world_with empty_fs)"
  by (simp add: sample_defs Convert_defs)

lemma on_cold_path_unit_ok_readonly: "on_cold_path sample_storage unit_ok (world_with readonly_fs)"
  by (simp add: sample_defs Convert_defs)

lemma on_cold_path_unit_unreachable:
  "on_cold_path sample_storage unit_unreachable (world_with empty_fs)"
  by (simp add: sample_defs Convert_defs)

lemma on_cold_path_unit_garbage: "on_cold_path sample_storage unit_garbage (world_with empty_fs)"
  by (simp add: sample_defs Convert_defs)

text \<open>
  C1, as stated, fails: with a loader that fails, the first call returns the loader's
  error and stores nothing, and the second call invokes the loader again.
\<close>

theorem Convert_failing_loader_invoked_twice:
  "snd (fst (sample_Convert 1000 unit_unreachable (world_with empty_fs))) =
     Some (LibError ''connection refused'') \<and>
   loadCalls (world_with empty_fs) = 0 \<and>
   loadCalls (snd (sample_Convert 2000 unit_unreachable
     (snd (sample_Convert 1000 unit_unreachable (world_with empty_fs))))) = 2"
  by (simp add: sample_defs Convert_defs)

theorem Convert_second_call_from_session_cache_witness:
  "fst (sample_Convert 1000 unit_ok (world_with empty_fs)) =
     (\<lparr>PrepareCommand = [], ReplacementText = sixel_ok\<rparr>, None) \<and>
   fst (sample_Convert 2000 unit_ok (snd (sample_Convert 1000 unit_ok (world_with empty_fs)))) =
     (\<lparr>PrepareCommand = [], ReplacementText = sixel_ok\<rparr>, None) \<and>
   loadCalls (snd (sample_Convert 2000 unit_ok
     (snd (sample_Convert 1000 unit_ok (world_with empty_fs))))) = 1"
proof -
  have first: "Convert sample_storage sample_imaging sample_manager 1000 unit_ok (world_with empty_fs) =
      ((\<lparr>PrepareCommand = [], ReplacementText = sixel_ok\<rparr>, None),
       snd (sample_Convert 1000 unit_ok (world_with empty_fs)))"
    using Convert_unit_ok_first by (simp add: prod_eq_iff sample_Convert_def)
  show ?thesis
    using Convert_second_call_from_session_cache[OF first, of unit_ok 2000]
      Convert_unit_ok_first loadCalls_unit_ok_first
    by (simp add: sample_Convert_def)
qed

text \<open>
  C2, as stated, fails: on a file system that lets no file be created the first
  conversion succeeds all the same, and after the eviction the second call finds nothing
  in the persistent cache and invokes the loader again.
\<close>

theorem Convert_failed_writeback_reloads:
  "snd (fst (sample_Convert 1000 unit_ok (world_with readonly_fs))) = None \<and>
   loadCalls (snd (sample_Convert 1000 unit_ok (world_with readonly_fs))) = 1 \<and>
   loadCalls (snd (sample_Convert 2000 unit_ok
     (evict ''ffz.9'' (snd (sample_Convert 1000 unit_ok (world_with readonly_fs)))))) = 2"
  by (simp add: sample_defs Convert_defs)

lemma cache_files_usable_unit_ok:
  "cache_files_usable sample_storage (fs (world_with empty_fs)) unit_ok"
  by (simp add: cache_files_usable_def cacheDir_def sample_defs Convert_defs)

lemma codecs_roundtrip_unit_ok:
  "codecs_roundtrip sample_storage unit_ok
     \<lparr>DecodedImage.ID = 0, Cols = 2, SixelData = sixel_ok, lastUsed = 0\<rparr>"
  unfolding codecs_roundtrip_def Let_def
  by (simp add: cacheDir_def sample_defs Convert_defs)

theorem Convert_persistent_roundtrip_witness:
  "fst (sample_Convert 1000 unit_ok (world_with empty_fs)) =
     (\<lparr>PrepareCommand = [], ReplacementText = sixel_ok\<rparr>, None) \<and>
   fst (sample_Convert 2000 unit_ok
     (evict ''ffz.9'' (snd (sample_Convert 1000 unit_ok (world_with empty_fs))))) =
     (\<lparr>PrepareCommand = [], ReplacementText = sixel_ok\<rparr>, None) \<and>
   loadCalls (snd (sample_Convert 2000 unit_ok
     (evict ''ffz.9'' (snd (sample_Convert 1000 unit_ok (world_with empty_fs)))))) = 1 \<and>
   map_of (globalPlacedImages (snd (sample_Convert 2000 unit_ok
     (evict ''ffz.9'' (snd (sample_Convert 1000 unit_ok (world_with empty_fs))))))) ''ffz.9'' =
     Some (DecodedImageV \<lparr>DecodedImage.ID = 2, Cols = 2, SixelData = sixel_ok, lastUsed = 2000\<rparr>)"
proof -
  have i: "DisplayUnit.ID unit_ok = ''ffz.9''" by (simp add: unit_ok_def)
  have f: "Convert sample_storage sample_imaging sample_manager 1000 unit_ok (world_with empty_fs) =
      (fst (sample_Convert 1000 unit_ok (world_with empty_fs)),
       snd (sample_Convert 1000 unit_ok (world_with empty_fs)))"
    by (simp add: sample_Convert_def)
  have z: "globalImagePlacementIDCounter (world_with empty_fs) = 0" by (simp add: world_with_def)
  show ?thesis
    using Convert_persistent_roundtrip[OF on_cold_path_unit_ok Load_unit_ok convertImageBytes_unit_ok
        cache_files_usable_unit_ok codecs_roundtrip_unit_ok f, of 2000] loadCalls_unit_ok_first
    by (simp add: sample_Convert_def i z KittyDisplayUnit_zero_def)
qed

lemma cacheDecodedImage_readonly:
  "fst (cacheDecodedImage sample_storage (snd (openCached sample_storage (fs (world_with readonly_fs)) unit_ok))
         (\<lparr>DecodedImage.ID = 0, Cols = 2, SixelData = sixel_ok, lastUsed = 0\<rparr>
            \<lparr>DecodedImage.ID := globalImagePlacementIDCounter (world_with readonly_fs) + 1, lastUsed := 1000\<rparr>)
         unit_ok) = Some (LibError ''read-only file system'')"
  by (simp add: sample_defs Convert_defs)

lemma on_cold_path_unit_avif: "on_cold_path sample_storage unit_avif (world_with empty_fs)"
  by (simp add: unit_avif_def sample_defs Convert_defs)

theorem Convert_cold_path_errors_witness:
  "fst (sample_Convert 1000 unit_garbage (world_with empty_fs)) =
     (KittyDisplayUnit_zero, Some (Wrapped ''failed to convert '' (LibError ''image: unknown format''))) \<and>
   fst (sample_Convert 1000 unit_ok (world_with readonly_fs)) =
     (\<lparr>PrepareCommand = [], ReplacementText = sixel_ok\<rparr>, None) \<and>
   map_of (globalPlacedImages (snd (sample_Convert 1000 unit_ok (world_with readonly_fs)))) ''ffz.9'' =
     Some (DecodedImageV \<lparr>DecodedImage.ID = 1, Cols = 2, SixelData = sixel_ok, lastUsed = 1000\<rparr>) \<and>
   fst (Convert sample_storage failing_encoder_imaging sample_manager 1000 unit_ok (world_with empty_fs)) =
     (KittyDisplayUnit_zero, Some (Wrapped ''failed to encode sixel'' (LibError ''write: broken pipe''))) \<and>
   fst (Convert sample_storage frameless_imaging sample_manager 1000 unit_avif (world_with empty_fs)) =
     (KittyDisplayUnit_zero, Some (Errorf ''avif has no frames''))"
proof -
  have g: "Load unit_garbage = Inr (''<html>not found</html>'', ''image/png'')"
    by (simp add: unit_garbage_def unit_ok_def)
  have i: "DisplayUnit.ID unit_ok = ''ffz.9''" by (simp add: unit_ok_def)
  have z: "globalImagePlacementIDCounter (world_with readonly_fs) = 0" by (simp add: world_with_def)
  have r1: "fst (sample_Convert 1000 unit_garbage (world_with empty_fs)) =
     (KittyDisplayUnit_zero, Some (Wrapped ''failed to convert '' (LibError ''image: unknown format'')))"
    using Convert_cold_path_errors[OF on_cold_path_unit_garbage g,
        where im = sample_imaging and d = sample_manager and now = 1000 and
          err = "Wrapped ''failed to convert '' (LibError ''image: unknown format'')"]
      convertImageBytes_unit_garbage
    by (simp add: sample_Convert_def)
  have r2: "fst (sample_Convert 1000 unit_ok (world_with readonly_fs)) =
     (\<lparr>PrepareCommand = [], ReplacementText = sixel_ok\<rparr>, None) \<and>
   map_of (globalPlacedImages (snd (sample_Convert 1000 unit_ok (world_with readonly_fs)))) ''ffz.9'' =
     Some (DecodedImageV \<lparr>DecodedImage.ID = 1, Cols = 2, SixelData = sixel_ok, lastUsed = 1000\<rparr>)"
    using Convert_cold_path_errors[OF on_cold_path_unit_ok_readonly Load_unit_ok,
        where im = sample_imaging and d = sample_manager and now = 1000 and
          dec = "\<lparr>DecodedImage.ID = 0, Cols = 2, SixelData = sixel_ok, lastUsed = 0\<rparr>" and
          werr = "LibError ''read-only file system''"]
      convertImageBytes_unit_ok cacheDecodedImage_readonly
    by (simp add: sample_Convert_def i z KittyDisplayUnit_zero_def)
  have dec3: "image_Decode failing_encoder_imaging [CHR 28, CHR 28] = Inr (28, 28)"
    by (simp add: failing_encoder_imaging_def sample_imaging_def sample_decode_def)
  have enc3: "sixel_Encode failing_encoder_imaging
      (encoder_input failing_encoder_imaging sample_manager (28, 28) unit_ok) =
      Inl (LibError ''write: broken pipe'')"
    by (simp add: failing_encoder_imaging_def)
  have an: "\<not> DisplayUnit.IsAnimated unit_ok" by (simp add: unit_ok_def)
  have r3: "fst (Convert sample_storage failing_encoder_imaging sample_manager 1000 unit_ok (world_with empty_fs)) =
     (KittyDisplayUnit_zero, Some (Wrapped ''failed to encode sixel'' (LibError ''write: broken pipe'')))"
    using Convert_cold_path_errors[OF on_cold_path_unit_ok Load_unit_ok,
        where im = failing_encoder_imaging and d = sample_manager and now = 1000 and
          err = "Wrapped ''failed to encode sixel'' (LibError ''write: broken pipe'')" and
          e = "LibError ''write: broken pipe''" and img = "(28, 28)"]
      dec3 enc3 an
    by simp
  have l4: "Load unit_avif = Inr ([CHR 28, CHR 28], ''image/avif'')"
    by (simp add: unit_avif_def unit_ok_def)
  have dec4: "avif_DecodeAll frameless_imaging [CHR 28, CHR 28] = Inr []"
    by (simp add: frameless_imaging_def)
  have r4: "fst (Convert sample_storage frameless_imaging sample_manager 1000 unit_avif (world_with empty_fs)) =
     (KittyDisplayUnit_zero, Some (Errorf ''avif has no frames''))"
    using Convert_cold_path_errors[OF on_cold_path_unit_avif l4,
        where im = frameless_imaging and d = sample_manager and now = 1000 and
          err = "Errorf ''avif has no frames''"]
      dec4
    by simp
  from r1 r2 r3 r4 show ?thesis by simp
qed

theorem Convert_payload_self_contained_witness:
  "snd (fst (sample_Convert 1000 unit_ok (world_with empty_fs))) = None \<and>
   PrepareCommand (fst (fst (sample_Convert 1000 unit_ok (world_with empty_fs)))) = [] \<and>
   ReplacementText (fst (fst (sample_Convert 1000 unit_ok (world_with empty_fs)))) = sixel_ok"
proof -
  have n: "snd (fst (Convert sample_storage sample_imaging sample_manager 1000 unit_ok
      (world_with empty_fs))) = None"
    using Convert_unit_ok_first by (simp add: sample_Convert_def)
  show ?thesis
    using Convert_payload_self_contained[OF n] Convert_unit_ok_first
    by (simp add: sample_Convert_def)
qed

theorem Convert_failure_stores_nothing_witness:
  "fst (sample_Convert 1000 unit_unreachable (world_with empty_fs)) =
     (KittyDisplayUnit_zero, Some (LibError ''connection refused'')) \<and>
   map_of (globalPlacedImages (snd (sample_Convert 1000 unit_unreachable (world_with empty_fs))))
     ''ffz.9'' = None \<and>
   files (fs (snd (sample_Convert 1000 unit_unreachable (world_with empty_fs)))) = Map.empty \<and>
   fst (sample_Convert 1000 unit_garbage (world_with empty_fs)) =
     (KittyDisplayUnit_zero, Some (Wrapped ''failed to convert '' (LibError ''image: unknown format''))) \<and>
   map_of (globalPlacedImages (snd (sample_Convert 1000 unit_garbage (world_with empty_fs))))
     ''ffz.9'' = None \<and>
   files (fs (snd (sample_Convert 1000 unit_garbage (world_with empty_fs)))) = Map.empty"
proof -
  have a: "Load unit_unreachable = Inl (LibError ''connection refused'') \<or>
      (\<exists>body ct. Load unit_unreachable = Inr (body, ct) \<and>
         convertImageBytes sample_imaging sample_manager body unit_unreachable ct =
           Inl (LibError ''connection refused''))"
    by (simp add: unit_unreachable_def)
  have b: "Load unit_garbage = Inl (Wrapped ''failed to convert '' (LibError ''image: unknown format'')) \<or>
      (\<exists>body ct. Load unit_garbage = Inr (body, ct) \<and>
         convertImageBytes sample_imaging sample_manager body unit_garbage ct =
           Inl (Wrapped ''failed to convert '' (LibError ''image: unknown format'')))"
    using convertImageBytes_unit_garbage by (simp add: unit_garbage_def)
  have e: "files (fs (world_with empty_fs)) = Map.empty" "globalPlacedImages (world_with empty_fs) = []"
    by (simp_all add: world_with_def empty_fs_def)
  show ?thesis
    using Convert_failure_stores_nothing[OF on_cold_path_unit_unreachable a, of 1000]
      Convert_failure_stores_nothing[OF on_cold_path_unit_garbage b, of 1000] e
    by (simp add: sample_Convert_def)
qed

lemma no_session_image_corrupt: "no_session_image (world_with corrupt_fs) unit_ok"
  by (simp add: sample_defs Convert_defs)

lemma openCached_corrupt:
  "snd (snd (fst (openCached sample_storage (fs (world_with corrupt_fs)) unit_ok))) =
     Some (LibError ''invalid character looking for beginning of value'')"
  by (simp add: sample_defs Convert_defs)

lemma sample_paths:
  "cacheDir sample_storage unit_ok = ''/data/chatuino/sixel/emote''"
  "metaImageFilePath sample_storage ''/data/chatuino/sixel/emote'' unit_ok = meta_path_ok"
  "compressedPath sample_storage ''/data/chatuino/sixel/emote'' unit_ok = payload_path_ok"
  by (simp_all add: cacheDir_def meta_path_ok_def payload_path_ok_def sample_defs Convert_defs)

lemma cache_files_usable_corrupt:
  "cache_files_usable sample_storage (fs (world_with corrupt_fs)) unit_ok"
  by (simp add: cache_files_usable_def cacheDir_def sample_defs Convert_defs)

lemma zlib_compress_sixel_ok: "zlib_compress sample_storage sixel_ok = Inr (zlib_header @ sixel_ok)"
  by (simp add: sample_storage_def sample_compress_def)

lemma json_Marshal_ok:
  "json_Marshal sample_storage \<lparr>meta_Cols = 2, EncodedPath = payload_path_ok\<rparr> @ [CHR 0x0A] = meta_json_ok"
  by (simp add: meta_json_ok_def payload_path_ok_def sample_storage_def sample_Marshal_def
      show_int_def show_nat.simps)

theorem Convert_unreadable_cache_entry_witness:
  "snd (snd (fst (openCached sample_storage (fs (world_with corrupt_fs)) unit_ok))) =
     Some (LibError ''invalid character looking for beginning of value'') \<and>
   fst (sample_Convert 1000 unit_ok (world_with corrupt_fs)) =
     (\<lparr>PrepareCommand = [], ReplacementText = sixel_ok\<rparr>, None) \<and>
   loadCalls (snd (sample_Convert 1000 unit_ok (world_with corrupt_fs))) = 1 \<and>
   files (fs (world_with corrupt_fs)) meta_path_ok = Some ''{'' \<and>
   files (fs (snd (sample_Convert 1000 unit_ok (world_with corrupt_fs)))) meta_path_ok =
     Some meta_json_ok \<and>
   files (fs (snd (sample_Convert 1000 unit_ok (world_with corrupt_fs)))) payload_path_ok =
     Some (zlib_header @ sixel_ok) \<and>
   fst (openCached sample_storage (fs (snd (sample_Convert 1000 unit_ok (world_with corrupt_fs)))) unit_ok) =
     (\<lparr>DecodedImage.ID = 0, Cols = 2, SixelData = sixel_ok, lastUsed = 0\<rparr>, True, None)"
proof -
  note t = Convert_unreadable_cache_entry[OF no_session_image_corrupt openCached_corrupt,
      of sample_imaging sample_manager 1000]
  let ?dec = "\<lparr>DecodedImage.ID = 0, Cols = 2, SixelData = sixel_ok, lastUsed = 0\<rparr>"
  have w: "cache_files_writable sample_storage (fs (world_with corrupt_fs)) unit_ok"
    using cache_files_usable_corrupt by (rule cache_files_usable_writable)
  have a: "fst (sample_Convert 1000 unit_ok (world_with corrupt_fs)) =
     (\<lparr>PrepareCommand = [], ReplacementText = sixel_ok\<rparr>, None) \<and>
   loadCalls (snd (sample_Convert 1000 unit_ok (world_with corrupt_fs))) = 1"
    using t Load_unit_ok convertImageBytes_unit_ok
    by (simp add: sample_Convert_def KittyDisplayUnit_zero_def world_with_def)
  have f: "files (fs (snd (sample_Convert 1000 unit_ok (world_with corrupt_fs)))) =
      (files (fs (world_with corrupt_fs)))(payload_path_ok \<mapsto> zlib_header @ sixel_ok,
         meta_path_ok \<mapsto> meta_json_ok)"
  proof -
    from t have "\<forall>body ct dec z. Load unit_ok = Inr (body, ct) \<and>
        convertImageBytes sample_imaging sample_manager body unit_ok ct = Inr dec \<and>
        cache_files_writable sample_storage (fs (world_with corrupt_fs)) unit_ok \<and>
        zlib_compress sample_storage (SixelData dec) = Inr z \<longrightarrow>
        files (fs (snd (Convert sample_storage sample_imaging sample_manager 1000 unit_ok (world_with corrupt_fs)))) =
          (files (fs (world_with corrupt_fs)))
            (compressedPath sample_storage (cacheDir sample_storage unit_ok) unit_ok \<mapsto> z,
             metaImageFilePath sample_storage (cacheDir sample_storage unit_ok) unit_ok \<mapsto>
               json_Marshal sample_storage \<lparr>meta_Cols = Cols dec,
                 EncodedPath = compressedPath sample_storage (cacheDir sample_storage unit_ok) unit_ok\<rparr> @ [CHR 0x0A])"
      by blast
    from this[rule_format, of "[CHR 28, CHR 28]" "''image/png''" ?dec "zlib_header @ sixel_ok"]
      Load_unit_ok convertImageBytes_unit_ok w zlib_compress_sixel_ok
    show ?thesis
      by (simp add: sample_paths json_Marshal_ok sample_Convert_def)
  qed
  have r: "fst (openCached sample_storage (fs (snd (sample_Convert 1000 unit_ok (world_with corrupt_fs)))) unit_ok) =
     (?dec, True, None)"
  proof -
    from t have "\<forall>body ct dec. Load unit_ok = Inr (body, ct) \<and>
        convertImageBytes sample_imaging sample_manager body unit_ok ct = Inr dec \<and>
        cache_files_usable sample_storage (fs (world_with corrupt_fs)) unit_ok \<and>
        codecs_roundtrip sample_storage unit_ok dec \<longrightarrow>
        fst (openCached sample_storage
              (fs (snd (Convert sample_storage sample_imaging sample_manager 1000 unit_ok (world_with corrupt_fs)))) unit_ok) =
          (DecodedImage_zero\<lparr>Cols := Cols dec, SixelData := SixelData dec\<rparr>, True, None)"
      by blast
    from this[rule_format, of "[CHR 28, CHR 28]" "''image/png''" ?dec]
      Load_unit_ok convertImageBytes_unit_ok cache_files_usable_corrupt codecs_roundtrip_unit_ok
    show ?thesis
      by (simp add: sample_Convert_def DecodedImage_zero_def)
  qed
  have c: "files (fs (world_with corrupt_fs)) meta_path_ok = Some ''{''"
    by (simp add: world_with_def corrupt_fs_def empty_fs_def meta_path_ok_def)
  have pm: "payload_path_ok \<noteq> meta_path_ok"
    by (simp add: payload_path_ok_def meta_path_ok_def)
  from a f r c pm openCached_corrupt show ?thesis by simp
qed

end
